theory Spec2Isabelle
  imports Complex_Main
begin


section \<open>Double arithmetic\<close>

text \<open>
  A JavaScript number is an IEEE 754 double. A finite double is modelled by the real
  number it denotes, and an arithmetic operation by the exact operation on the reals
  followed by rounding to the nearest double, ties to the even significand.
  \<open>Math.floor\<close> and \<open>Math.ceil\<close> are \<^const>\<open>floor\<close> and \<^const>\<open>ceiling\<close>, and
  comparison is the order of the reals.
\<close>

text \<open>Rounding to the nearest integer, a tie going to the even one.\<close>

definition round_even :: "real \<Rightarrow> int" where
  "round_even q =
     (let f = \<lfloor>q\<rfloor>; r = q - of_int f
      in if r < 1 / 2 then f
         else if 1 / 2 < r then f + 1
         else if even f then f else f + 1)"

text \<open>
  The exponent of the unit in the last place of the doubles around \<open>x\<close>: 52 below
  the binary exponent of \<open>x\<close>, and never below that of the subnormal numbers.
\<close>

definition ulp_exponent :: "real \<Rightarrow> int" where
  "ulp_exponent x = max \<lfloor>log 2 \<bar>x\<bar>\<rfloor> (- 1022) - 52"

text \<open>The magnitude at which a rounded result overflows.\<close>

definition overflow_bound :: real where
  "overflow_bound = 2 ^ 1024"

text \<open>
  The double nearest to a real. A result whose magnitude reaches \<open>2 ^ 1024\<close> is an
  infinity in IEEE arithmetic; it is kept as \<open>2 ^ 1024\<close> with its sign, which compares
  with the finite doubles and with itself as the infinity does. Not-a-number values are
  outside the model.
\<close>

definition double :: "real \<Rightarrow> real" where
  "double x =
     (let u = 2 powr of_int (ulp_exponent x);
          r = of_int (round_even (x / u)) * u
      in if x = 0 then 0
         else if overflow_bound \<le> \<bar>r\<bar> then sgn x * overflow_bound
         else r)"

text \<open>
  The operators \<open>+\<close>, \<open>-\<close>, \<open>*\<close> and \<open>/\<close> on doubles. The loop of the scheduler,
  the placement arithmetic of row generation and the distance test of the damage pass
  are written with them. Products and quotients of row indices with the tile size are
  exact in doubles and are written with the operations of the reals. The band test of
  the row clearer and the two distance tests of the row pass of an explosion are written
  with the operations of the reals as well; there the doubles of the code can differ
  from the real value by a rounding, as in \<open>TILE_SIZE * 1.2\<close>.
\<close>

definition fadd :: "real \<Rightarrow> real \<Rightarrow> real" where
  "fadd a b = double (a + b)"

definition fsub :: "real \<Rightarrow> real \<Rightarrow> real" where
  "fsub a b = double (a - b)"

definition fmul :: "real \<Rightarrow> real \<Rightarrow> real" where
  "fmul a b = double (a * b)"

definition fdiv :: "real \<Rightarrow> real \<Rightarrow> real" where
  "fdiv a b = double (a / b)"


section \<open>Numbers and configuration constants\<close>

text \<open>
  Row indices, the keys of the two row maps, are integers. A decimal literal of the source
  that is not a double, such as \<open>0.03\<close>, is the double nearest to it.
\<close>

text \<open>
  Modelled from the spec: the constant \<open>TILE_SIZE\<close> is imported from \<open>../constants\<close>, a
  file that is not among the sources. The scenarios of the specification fix the tile
  size to 16.
\<close>

definition TILE_SIZE :: real where
  "TILE_SIZE = 16"

definition mapWidthTiles :: nat where
  "mapWidthTiles = 25"

definition mapHeightTiles :: int where
  "mapHeightTiles = 500"

definition mapWidthPixels :: real where
  "mapWidthPixels = real mapWidthTiles * TILE_SIZE"

definition mapHeightPixels :: real where
  "mapHeightPixels = real_of_int mapHeightTiles * TILE_SIZE"

definition boulderSpawnChanceBase :: real where
  "boulderSpawnChanceBase = double (3 / 100)"

definition enemySpawnChanceBase :: real where
  "enemySpawnChanceBase = double (8 / 1000)"

definition spikeSpawnChanceBase :: real where
  "spikeSpawnChanceBase = double (3 / 100)"

definition coinSpawnChanceBase :: real where
  "coinSpawnChanceBase = double (5 / 1000)"

definition difficultyScaleFactor :: real where
  "difficultyScaleFactor = double (3 / 1000)"

definition initialPlatformRows :: int where
  "initialPlatformRows = 5"

definition initialClearRows :: int where
  "initialClearRows = 3"

definition baseEnemySpeed :: real where
  "baseEnemySpeed = 30"

definition enemySpeedDepthScale :: real where
  "enemySpeedDepthScale = 1 / 2"


section \<open>Game objects\<close>

text \<open>
  An arcade physics body, as far as the occupancy check reads it: \<open>body.position\<close> and
  \<open>body.offset\<close>.
\<close>

record phys_body =
  position_x :: real
  position_y :: real
  offset_x :: real
  offset_y :: real

text \<open>
  A boulder, enemy, spike or coin. The terrain manager reads the position, the
  \<open>active\<close> flag and the body of such an object; health and speed are private to the
  entity classes.
\<close>

record entity =
  ent_x :: real
  ent_y :: real
  ent_active :: bool
  ent_body :: "phys_body option"
  ent_health :: real
  ent_speed :: real

text \<open>The invisible static image that makes a row solid, with its \<open>rowY\<close> data entry.\<close>

record collider =
  col_x :: real
  col_y :: real
  col_width :: real
  col_height :: real
  col_rowY :: int

text \<open>The tile sprite that draws a row.\<close>

record visual =
  vis_x :: real
  vis_y :: real
  vis_width :: real
  vis_height :: real
  vis_texture :: string

text \<open>One call of \<open>ParticleManager.triggerParticles(key, x, y, options)\<close>.\<close>

record particle_call =
  p_key :: string
  p_x :: real
  p_y :: real
  p_count :: nat
  p_speed :: "real option"
  p_scale :: "real option"

text \<open>An emission on the event bus: \<open>"dirt-row-cleared"\<close> with its \<open>tileY\<close>.\<close>

datatype event = DirtRowCleared int

text \<open>
  The classes \<open>Boulder\<close>, \<open>Enemy\<close>, \<open>Spike\<close> and \<open>Coin\<close> are imported from
  \<open>../entities\<close> and are not among the sources. The terrain manager is modelled against
  their interface: the constructors, \<open>Enemy.setSpeed\<close>, \<open>Coin.spawn\<close> (which receives the
  coin group, possibly undefined, and returns nothing, so the model hands the group back)
  and the three \<open>takeDamage\<close> methods, each of which is taken to act on its own object
  only. The rendering depth set on a new object is not modelled. Every theorem below
  holds for all implementations of this interface.
\<close>

record classes =
  Boulder_new :: "real \<Rightarrow> real \<Rightarrow> entity"
  Enemy_new :: "real \<Rightarrow> real \<Rightarrow> entity"
  Enemy_setSpeed :: "real \<Rightarrow> entity \<Rightarrow> entity"
  Spike_new :: "real \<Rightarrow> real \<Rightarrow> entity"
  Coin_spawn :: "entity list option \<Rightarrow> real \<Rightarrow> real \<Rightarrow> entity list option"
  Enemy_takeDamage :: "real \<Rightarrow> entity \<Rightarrow> entity"
  Spike_takeDamage :: "real \<Rightarrow> entity \<Rightarrow> entity"
  Boulder_takeDamage :: "real \<Rightarrow> entity \<Rightarrow> entity"


section \<open>The state of the terrain manager\<close>

text \<open>
  The fields of \<open>TerrainManager\<close>, together with what its methods write outside the
  object: the calls made on the particle manager (when there is one), the emissions on
  the event bus, and the supply of numbers \<open>Math.random\<close> draws from. A group is the list
  of its children in insertion order; \<open>spikesGroup\<close>, \<open>coinsGroup\<close> and
  \<open>particleManager\<close> are optional fields of the class.
\<close>

record terrain =
  generatedRowsMaxY :: real
  bouldersGroup :: "entity list"
  enemiesGroup :: "entity list"
  spikesGroup :: "entity list option"
  coinsGroup :: "entity list option"
  particleManager :: "particle_call list option"
  rowColliderGroup :: "collider list"
  rowVisualsGroup :: "visual list"
  rowColliders :: "int \<rightharpoonup> collider"
  rowVisuals :: "int \<rightharpoonup> visual"
  events :: "event list"
  randoms :: "nat \<Rightarrow> real"

text \<open>\<open>Math.random()\<close>: the next number of the supply, which moves on by one.\<close>

definition Math_random :: "terrain \<Rightarrow> real \<times> terrain" where
  "Math_random s = (randoms s 0, s\<lparr>randoms := (\<lambda>n. randoms s (Suc n))\<rparr>)"

text \<open>
  The constructor: the frontier starts below the clear rows, the spike group and both
  row groups are created empty, the row maps are empty.
\<close>

definition constructor ::
  "entity list \<Rightarrow> entity list \<Rightarrow> entity list option \<Rightarrow> particle_call list option \<Rightarrow>
   (nat \<Rightarrow> real) \<Rightarrow> terrain" where
  "constructor boulders enemies coins particles rnd =
     \<lparr>generatedRowsMaxY = real_of_int initialClearRows * TILE_SIZE,
      bouldersGroup = boulders,
      enemiesGroup = enemies,
      spikesGroup = Some [],
      coinsGroup = coins,
      particleManager = particles,
      rowColliderGroup = [],
      rowVisualsGroup = [],
      rowColliders = Map.empty,
      rowVisuals = Map.empty,
      events = [],
      randoms = rnd\<rparr>"


section \<open>Row generation\<close>

text \<open>
  The occupancy test of one game object (the body of the \<open>forEach\<close>): the object has
  a body whose position plus offset is within the check radius of the spawn point on both
  axes.
\<close>

definition bodyHit :: "real \<Rightarrow> real \<Rightarrow> real \<Rightarrow> entity \<Rightarrow> bool" where
  "bodyHit spawnWorldX spawnSurfaceY checkRadius go =
     (case ent_body go of
        None \<Rightarrow> False
      | Some b \<Rightarrow>
          \<bar>fsub (fadd (position_x b) (offset_x b)) spawnWorldX\<bar> < checkRadius \<and>
          \<bar>fsub (fadd (position_y b) (offset_y b)) spawnSurfaceY\<bar> < checkRadius)"

text \<open>
  The loop over \<open>groupsToCheck\<close>: an undefined group is skipped, and the loop breaks at
  the first group that holds a hit.
\<close>

fun groupsOccupied :: "(entity \<Rightarrow> bool) \<Rightarrow> entity list option list \<Rightarrow> bool" where
  "groupsOccupied hit [] = False"
| "groupsOccupied hit (None # gs) = groupsOccupied hit gs"
| "groupsOccupied hit (Some g # gs) = (if list_ex hit g then True else groupsOccupied hit gs)"

text \<open>
  The chain of rolls for boulder, enemy and spike in one free cell. The result is the flag
  \<open>spaceOccupied\<close> and the new state. A later roll is drawn only when the earlier ones
  failed; a successful spike roll spawns only when the spike group exists.
\<close>

definition rollHazard ::
  "classes \<Rightarrow> real \<Rightarrow> real \<Rightarrow> real \<Rightarrow> real \<Rightarrow> real \<Rightarrow> real \<Rightarrow> real \<Rightarrow> terrain \<Rightarrow>
   bool \<times> terrain" where
  "rollHazard E spawnWorldX spawnSurfaceY spikeSpawnY currentBoulderChance
       currentEnemyChance currentSpikeChance currentEnemySpeed s =
     (let (r1, s1) = Math_random s in
      if r1 < currentBoulderChance then
        (True, s1\<lparr>bouldersGroup :=
           bouldersGroup s1 @
             [Boulder_new E spawnWorldX (fsub spawnSurfaceY (fdiv TILE_SIZE 2))]\<rparr>)
      else
        let (r2, s2) = Math_random s1 in
        if r2 < currentEnemyChance then
          (True, s2\<lparr>enemiesGroup :=
             enemiesGroup s2 @
               [Enemy_setSpeed E currentEnemySpeed
                  (Enemy_new E spawnWorldX (fsub spawnSurfaceY (fdiv TILE_SIZE 2)))]\<rparr>)
        else
          let (r3, s3) = Math_random s2 in
          if r3 < currentSpikeChance then
            (case spikesGroup s3 of
               Some g \<Rightarrow>
                 (True, s3\<lparr>spikesGroup :=
                    Some (g @ [Spike_new E (fsub spawnWorldX (fdiv TILE_SIZE 2))
                                 (fadd spikeSpawnY 10)])\<rparr>)
             | None \<Rightarrow> (False, s3))
          else (False, s3))"

text \<open>
  The coin roll: \<open>!spaceOccupied && Math.random() < currentCoinChance\<close>, so no number
  is drawn for an occupied cell.
\<close>

definition rollCoin ::
  "classes \<Rightarrow> real \<Rightarrow> real \<Rightarrow> real \<Rightarrow> bool \<Rightarrow> terrain \<Rightarrow> terrain" where
  "rollCoin E spawnWorldX spawnSurfaceY currentCoinChance spaceOccupied s =
     (if spaceOccupied then s
      else
        let (r4, s4) = Math_random s in
        if r4 < currentCoinChance then
          s4\<lparr>coinsGroup :=
               Coin_spawn E (coinsGroup s4) spawnWorldX
                 (fsub spawnSurfaceY (fdiv TILE_SIZE 2))\<rparr>
        else s4)"

text \<open>The body of the loop over the columns of a row, for the column \<open>tileX\<close>.\<close>

definition spawnCell ::
  "classes \<Rightarrow> real \<Rightarrow> real \<Rightarrow> real \<Rightarrow> real \<Rightarrow> real \<Rightarrow> real \<Rightarrow> real \<Rightarrow> nat \<Rightarrow> terrain \<Rightarrow>
   terrain" where
  "spawnCell E spawnSurfaceY spikeSpawnY currentBoulderChance currentEnemyChance
       currentSpikeChance currentCoinChance currentEnemySpeed tileX s =
     (let spawnWorldX = fadd (fmul (real tileX) TILE_SIZE) (fdiv TILE_SIZE 2);
          checkRadius = fmul TILE_SIZE (double (8 / 10));
          groupsToCheck =
            [Some (bouldersGroup s), Some (enemiesGroup s), spikesGroup s, coinsGroup s]
      in
        if groupsOccupied (bodyHit spawnWorldX spawnSurfaceY checkRadius) groupsToCheck
        then s
        else
          let (spaceOccupied, s') =
                rollHazard E spawnWorldX spawnSurfaceY spikeSpawnY currentBoulderChance
                  currentEnemyChance currentSpikeChance currentEnemySpeed s
          in rollCoin E spawnWorldX spawnSurfaceY currentCoinChance spaceOccupied s')"

text \<open>
  The collider of a row: an invisible static image near the bottom of the tile band, as
  wide as the map plus 30, a tenth of a tile high, carrying the row index as data.
\<close>

definition newCollider :: "real \<Rightarrow> int \<Rightarrow> collider" where
  "newCollider worldY tileY =
     (let colliderYOffset = fmul TILE_SIZE (double (9 / 10));
          colliderHeight = fmul TILE_SIZE (double (1 / 10))
      in \<lparr>col_x = 0, col_y = fadd worldY colliderYOffset,
          col_width = fadd mapWidthPixels 30, col_height = colliderHeight,
          col_rowY = tileY\<rparr>)"

text \<open>The visual of a row: a tile sprite over the whole band.\<close>

definition newVisual :: "real \<Rightarrow> visual" where
  "newVisual worldY =
     \<lparr>vis_x = fdiv mapWidthPixels 2, vis_y = fadd worldY (fdiv TILE_SIZE 2),
      vis_width = mapWidthPixels, vis_height = TILE_SIZE,
      vis_texture = ''dirt_tile''\<rparr>"

text \<open>
  \<open>generateRow(worldY, forceGenerate)\<close>: nothing happens for a row index out of bounds
  or already in the collider map, nor for a row at or above the platform unless forced.
  Otherwise the collider and the visual are created, added to their groups and stored
  under the row index, and below the platform the columns are populated from left to
  right.
\<close>

definition generateRow :: "classes \<Rightarrow> terrain \<Rightarrow> real \<Rightarrow> bool \<Rightarrow> terrain" where
  "generateRow E s worldY forceGenerate =
     (let tileY = \<lfloor>worldY / TILE_SIZE\<rfloor> in
      if tileY < 0 \<or> tileY \<ge> mapHeightTiles \<or> tileY \<in> dom (rowColliders s) then s
      else if \<not> forceGenerate \<and> tileY \<le> initialPlatformRows then s
      else
        let colliderYOffset = fmul TILE_SIZE (double (9 / 10));
            colliderHeight = fmul TILE_SIZE (double (1 / 10));
            collider = newCollider worldY tileY;
            s1 = s\<lparr>rowColliderGroup := rowColliderGroup s @ [collider],
                   rowColliders := (rowColliders s)(tileY \<mapsto> collider)\<rparr>;
            visual = newVisual worldY;
            s2 = s1\<lparr>rowVisualsGroup := rowVisualsGroup s1 @ [visual],
                    rowVisuals := (rowVisuals s1)(tileY \<mapsto> visual)\<rparr>;
            spawnSurfaceY = fsub (fadd worldY colliderYOffset) (fdiv colliderHeight 2);
            spikeSpawnY = worldY
        in
          if tileY \<le> initialPlatformRows then s2
          else
            let depthInRows = tileY - (initialPlatformRows + 1);
                depthFactor = fmul (max 0 (real_of_int depthInRows)) difficultyScaleFactor;
                currentBoulderChance = fadd boulderSpawnChanceBase depthFactor;
                currentEnemyChance = fadd enemySpawnChanceBase depthFactor;
                currentSpikeChance = fadd spikeSpawnChanceBase depthFactor;
                currentCoinChance = fadd coinSpawnChanceBase depthFactor;
                currentEnemySpeed =
                  min 100
                    (fadd baseEnemySpeed
                       (fmul (real_of_int depthInRows) enemySpeedDepthScale))
            in
              fold (spawnCell E spawnSurfaceY spikeSpawnY currentBoulderChance
                      currentEnemyChance currentSpikeChance currentCoinChance
                      currentEnemySpeed)
                [0..<mapWidthTiles] s2)"


section \<open>The generation scheduler\<close>

text \<open>
  The loop \<open>for (let y = startY; y < endY; y += TILE_SIZE)\<close> of \<open>update\<close>, which
  generates only rows below the initial platform. The step is an addition of doubles:
  once \<open>y + TILE_SIZE\<close> rounds back to \<open>y\<close> the loop never ends, so the result is
  optional and \<open>None\<close> stands for a loop that does not return.
\<close>

partial_function (option) update_loop ::
  "classes \<Rightarrow> real \<Rightarrow> real \<Rightarrow> terrain \<Rightarrow> terrain option" where
  "update_loop E y endY s =
     (if y < endY then
        update_loop E (fadd y TILE_SIZE) endY
          (if y \<ge> real_of_int (initialPlatformRows + 1) * TILE_SIZE
           then generateRow E s y False else s)
      else Some s)"

text \<open>\<open>update(cameraBottomY)\<close>.\<close>

definition update :: "classes \<Rightarrow> terrain \<Rightarrow> real \<Rightarrow> terrain option" where
  "update E s cameraBottomY =
     (let generationThreshold = fadd cameraBottomY (fmul TILE_SIZE 10) in
      if generationThreshold > generatedRowsMaxY s then
        let startY = generatedRowsMaxY s;
            endY = generationThreshold
        in map_option (\<lambda>s'. s'\<lparr>generatedRowsMaxY := endY\<rparr>) (update_loop E startY endY s)
      else Some s)"

text \<open>
  \<open>generateInitialChunk()\<close>: the forced platform row, then twenty rows below it; its
  loop has the shape of the one in \<open>update\<close>, without the platform test.
\<close>

partial_function (option) chunk_loop ::
  "classes \<Rightarrow> real \<Rightarrow> real \<Rightarrow> terrain \<Rightarrow> terrain option" where
  "chunk_loop E y endY s =
     (if y < endY then chunk_loop E (fadd y TILE_SIZE) endY (generateRow E s y False)
      else Some s)"

definition generateInitialChunk :: "classes \<Rightarrow> terrain \<Rightarrow> terrain option" where
  "generateInitialChunk E s =
     (let platformWorldY = real_of_int initialPlatformRows * TILE_SIZE;
          s1 = generateRow E s platformWorldY True;
          initialWorldDepthRows = 20;
          startY = real_of_int (initialPlatformRows + 1) * TILE_SIZE;
          endY = fadd startY (fmul initialWorldDepthRows TILE_SIZE)
      in map_option (\<lambda>s'. s'\<lparr>generatedRowsMaxY := endY\<rparr>) (chunk_loop E startY endY s1))"


section \<open>The row clearer\<close>

text \<open>
  What the \<open>forEach\<close> over the spikes does to one spike when a row is cleared:
  an active spike whose \<open>y\<close> lies strictly between the top of the row above the target
  and 1.2 tile heights below that top takes one point of damage.
\<close>

definition clearSpike :: "classes \<Rightarrow> real \<Rightarrow> entity \<Rightarrow> entity" where
  "clearSpike E rowAboveWorldY spike =
     (if \<not> ent_active spike then spike
      else if ent_y spike > rowAboveWorldY \<and>
              ent_y spike < rowAboveWorldY + TILE_SIZE * (12 / 10)
      then Spike_takeDamage E 1 spike
      else spike)"

text \<open>The two particle loops over the columns: the cleared row, then the row above.\<close>

definition dirtParticles :: "real \<Rightarrow> particle_call list" where
  "dirtParticles particleY =
     map (\<lambda>i. \<lparr>p_key = ''dirt_tile'', p_x = real i * TILE_SIZE + TILE_SIZE / 2,
               p_y = particleY, p_count = 3, p_speed = None, p_scale = None\<rparr>)
       [0..<mapWidthTiles]"

definition spikeParticles :: "real \<Rightarrow> particle_call list" where
  "spikeParticles spikeRowParticleY =
     map (\<lambda>i. \<lparr>p_key = ''spikes'', p_x = real i * TILE_SIZE + TILE_SIZE / 2,
               p_y = spikeRowParticleY, p_count = 2, p_speed = Some 70,
               p_scale = Some (4 / 10)\<rparr>)
       [0..<mapWidthTiles]"

text \<open>
  \<open>clearCurrentRow(triggerWorldY)\<close>. The target is the row below the trigger point.
  With no collider stored for it, the result is \<open>false\<close> and nothing is touched.
  Otherwise the collider leaves its group and the map, the visual (when there is one)
  likewise, the spikes of the row above are damaged, particles are triggered, the event
  is emitted and the result is \<open>true\<close>.
\<close>

definition clearCurrentRow :: "classes \<Rightarrow> terrain \<Rightarrow> real \<Rightarrow> bool \<times> terrain" where
  "clearCurrentRow E s triggerWorldY =
     (let playerRowYBelow = \<lfloor>triggerWorldY / TILE_SIZE\<rfloor> + 1;
          playerCurrentRow = playerRowYBelow - 1;
          targetRowWorldY = real_of_int playerRowYBelow * TILE_SIZE;
          targetTileY = playerRowYBelow
      in
        case rowColliders s targetTileY of
          None \<Rightarrow> (False, s)
        | Some collider \<Rightarrow>
            let s1 = s\<lparr>rowColliderGroup := remove1 collider (rowColliderGroup s),
                       rowColliders := (rowColliders s)(targetTileY := None)\<rparr>;
                s2 = (case rowVisuals s targetTileY of
                        None \<Rightarrow> s1
                      | Some visual \<Rightarrow>
                          s1\<lparr>rowVisualsGroup := remove1 visual (rowVisualsGroup s1),
                             rowVisuals := (rowVisuals s1)(targetTileY := None)\<rparr>);
                s3 = (case spikesGroup s2 of
                        None \<Rightarrow> s2
                      | Some spikes \<Rightarrow>
                          let rowAboveWorldY = real_of_int playerCurrentRow * TILE_SIZE
                          in s2\<lparr>spikesGroup :=
                                  Some (map (clearSpike E rowAboveWorldY) spikes)\<rparr>);
                s4 = (case particleManager s3 of
                        None \<Rightarrow> s3
                      | Some calls \<Rightarrow>
                          let particleY = targetRowWorldY + TILE_SIZE / 2;
                              spikeRowParticleY =
                                real_of_int playerCurrentRow * TILE_SIZE + TILE_SIZE / 2
                          in s3\<lparr>particleManager :=
                                  Some (calls @ dirtParticles particleY @
                                        spikeParticles spikeRowParticleY)\<rparr>);
                s5 = s4\<lparr>events := events s4 @ [DirtRowCleared targetTileY]\<rparr>
            in (True, s5))"


section \<open>The explosion resolver\<close>

text \<open>The argument of \<open>handleCreateExplosion\<close>.\<close>

record explosion =
  data_worldX :: real
  data_worldY :: real
  data_radius :: real

text \<open>\<open>Phaser.Math.Distance.Squared(x1, y1, x2, y2)\<close>.\<close>

definition Distance_Squared :: "real \<Rightarrow> real \<Rightarrow> real \<Rightarrow> real \<Rightarrow> real" where
  "Distance_Squared x1 y1 x2 y2 =
     (let dx = fsub x1 x2;
          dy = fsub y1 y2
      in fadd (fmul dx dx) (fmul dy dy))"

text \<open>
  The test applied to the candidate row at offset \<open>dy\<close> from the centre row: the row
  is skipped when its centre line is further than the radius from the explosion, and it
  is cleared when the lenient horizontal test, with the squared radius enlarged by the
  square of half the map width, succeeds.
\<close>

definition rowInBlast :: "explosion \<Rightarrow> int \<Rightarrow> bool" where
  "rowInBlast d targetTileY =
     (let radiusSq = data_radius d * data_radius d;
          rowWorldY = real_of_int targetTileY * TILE_SIZE;
          yDist = data_worldY d - (rowWorldY + TILE_SIZE / 2)
      in
        if yDist * yDist > radiusSq then False
        else
          let xDist = data_worldX d - mapWidthPixels / 2;
              checkRadiusSq = radiusSq + (mapWidthPixels / 2) * (mapWidthPixels / 2)
          in xDist * xDist + yDist * yDist \<le> checkRadiusSq)"

text \<open>
  The loop \<open>for (let dy = -tileRadius; dy <= tileRadius; dy++)\<close>, over the list of
  the values \<open>dy\<close> takes. The result of \<open>clearCurrentRow\<close> is dropped.
\<close>

fun clearBlastRows :: "classes \<Rightarrow> explosion \<Rightarrow> int \<Rightarrow> int list \<Rightarrow> terrain \<Rightarrow> terrain" where
  "clearBlastRows E d centerTileY [] s = s"
| "clearBlastRows E d centerTileY (dy # dys) s =
     (let targetTileY = centerTileY + dy;
          rowWorldY = real_of_int targetTileY * TILE_SIZE
      in
        if rowInBlast d targetTileY
        then clearBlastRows E d centerTileY dys
               (snd (clearCurrentRow E s (rowWorldY - TILE_SIZE / 2)))
        else clearBlastRows E d centerTileY dys s)"

text \<open>The first half of \<open>handleCreateExplosion\<close>: clearing the rows in the blast.\<close>

definition clearRowsInBlast :: "classes \<Rightarrow> terrain \<Rightarrow> explosion \<Rightarrow> terrain" where
  "clearRowsInBlast E s d =
     (let centerTileY = \<lfloor>data_worldY d / TILE_SIZE\<rfloor>;
          tileRadius = \<lceil>data_radius d / TILE_SIZE\<rceil>
      in clearBlastRows E d centerTileY [- tileRadius .. tileRadius] s)"

text \<open>
  What the three \<open>forEach\<close> loops of the second half do to one object: an active
  object whose squared distance to the explosion is at most the squared radius takes the
  damage of its kind.
\<close>

definition blastDamage ::
  "(real \<Rightarrow> entity \<Rightarrow> entity) \<Rightarrow> real \<Rightarrow> explosion \<Rightarrow> entity \<Rightarrow> entity" where
  "blastDamage takeDamage amount d go =
     (if \<not> ent_active go then go
      else
        let radiusSq = fmul (data_radius d) (data_radius d);
            distSq = Distance_Squared (data_worldX d) (data_worldY d) (ent_x go) (ent_y go)
        in if distSq \<le> radiusSq then takeDamage amount go else go)"

text \<open>The second half: enemies, then spikes (when the group exists), then boulders.\<close>

definition damageInBlast :: "classes \<Rightarrow> terrain \<Rightarrow> explosion \<Rightarrow> terrain" where
  "damageInBlast E s d =
     (let s1 = s\<lparr>enemiesGroup := map (blastDamage (Enemy_takeDamage E) 999 d) (enemiesGroup s)\<rparr>;
          s2 = (case spikesGroup s1 of
                  None \<Rightarrow> s1
                | Some spikes \<Rightarrow>
                    s1\<lparr>spikesGroup := Some (map (blastDamage (Spike_takeDamage E) 1 d) spikes)\<rparr>)
      in s2\<lparr>bouldersGroup :=
              map (blastDamage (Boulder_takeDamage E) 3 d) (bouldersGroup s2)\<rparr>)"

text \<open>\<open>handleCreateExplosion(data)\<close>: the rows first, the entities after.\<close>

definition handleCreateExplosion :: "classes \<Rightarrow> terrain \<Rightarrow> explosion \<Rightarrow> terrain" where
  "handleCreateExplosion E s d = damageInBlast E (clearRowsInBlast E s d) d"


section \<open>Notions used in the statements\<close>

text \<open>The row index of a world coordinate, as every method computes it.\<close>

definition tileRow :: "real \<Rightarrow> int" where
  "tileRow worldY = \<lfloor>worldY / TILE_SIZE\<rfloor>"

text \<open>
  What populating a row leaves alone: the row maps and groups, the frontier, the particle
  calls and the events.
\<close>

definition spawn_frame :: "terrain \<Rightarrow> terrain \<Rightarrow> bool" where
  "spawn_frame s t =
     (rowColliders t = rowColliders s \<and> rowVisuals t = rowVisuals s \<and>
      rowColliderGroup t = rowColliderGroup s \<and> rowVisualsGroup t = rowVisualsGroup s \<and>
      generatedRowsMaxY t = generatedRowsMaxY s \<and> particleManager t = particleManager s \<and>
      events t = events s)"

text \<open>
  The condition under which \<open>generateRow\<close> gets past its two early returns and
  materialises the row.
\<close>

definition generates :: "terrain \<Rightarrow> real \<Rightarrow> bool \<Rightarrow> bool" where
  "generates s worldY forceGenerate =
     (0 \<le> tileRow worldY \<and> tileRow worldY < mapHeightTiles \<and>
      rowColliders s (tileRow worldY) = None \<and>
      (forceGenerate \<or> initialPlatformRows < tileRow worldY))"

text \<open>The collider map and the visual map have the same keys.\<close>

definition rows_consistent :: "terrain \<Rightarrow> bool" where
  "rows_consistent s = (dom (rowColliders s) = dom (rowVisuals s))"

text \<open>
  Modelled from the spec: an implementation of the entity classes \<open>Boulder\<close>,
  \<open>Enemy\<close>, \<open>Spike\<close> and \<open>Coin\<close>, which are not among the sources, used to run the
  model on concrete inputs. An object is created active, with a body at its position;
  a spike sits at the bottom centre of the tile whose corner it is given, as the comment
  in \<open>clearCurrentRow\<close> describes; \<open>takeDamage(amount)\<close> lowers the health by the
  amount and deactivates the object when no health is left.
\<close>

definition plainEntity :: "real \<Rightarrow> real \<Rightarrow> real \<Rightarrow> entity" where
  "plainEntity px py health =
     \<lparr>ent_x = px, ent_y = py, ent_active = True,
      ent_body = Some \<lparr>position_x = px, position_y = py, offset_x = 0, offset_y = 0\<rparr>,
      ent_health = health, ent_speed = 0\<rparr>"

definition plainTakeDamage :: "real \<Rightarrow> entity \<Rightarrow> entity" where
  "plainTakeDamage amount go =
     go\<lparr>ent_health := ent_health go - amount,
        ent_active := (ent_active go \<and> 0 < ent_health go - amount)\<rparr>"

definition plainClasses :: classes where
  "plainClasses =
     \<lparr>Boulder_new = (\<lambda>px py. plainEntity px py 3),
      Enemy_new = (\<lambda>px py. plainEntity px py 1),
      Enemy_setSpeed = (\<lambda>v go. go\<lparr>ent_speed := v\<rparr>),
      Spike_new = (\<lambda>px py. plainEntity (px + TILE_SIZE / 2) (py + TILE_SIZE) 1),
      Coin_spawn = (\<lambda>g px py. map_option (\<lambda>coins. coins @ [plainEntity px py 1]) g),
      Enemy_takeDamage = plainTakeDamage,
      Spike_takeDamage = plainTakeDamage,
      Boulder_takeDamage = plainTakeDamage\<rparr>"

text \<open>
  A freshly constructed terrain manager with empty boulder, enemy and coin groups and a
  particle manager, whose random numbers are all one half.
\<close>

definition freshTerrain :: terrain where
  "freshTerrain = constructor [] [] (Some []) (Some []) (\<lambda>n. 1 / 2)"

text \<open>
  The scenario of the specification: the platform row 5 forced at world coordinate 80,
  then row 6 generated naturally at 96.
\<close>

definition platformScenario :: "classes \<Rightarrow> terrain \<Rightarrow> terrain" where
  "platformScenario E s = generateRow E (generateRow E s 80 True) 96 False"

text \<open>
  A terrain with rows 5 and 6 stored, three spikes at the heights 70, 90 and 98, two
  enemies at (200, 168) and (245, 168) and a boulder at (200, 150).
\<close>

definition demoTerrain :: terrain where
  "demoTerrain =
     freshTerrain
       \<lparr>bouldersGroup := [plainEntity 200 150 3],
        enemiesGroup := [plainEntity 200 168 1, plainEntity 245 168 1],
        spikesGroup := Some [plainEntity 8 70 1, plainEntity 8 90 1, plainEntity 8 98 1],
        rowColliderGroup := [newCollider 80 5, newCollider 96 6],
        rowVisualsGroup := [newVisual 80, newVisual 96],
        rowColliders := [5 \<mapsto> newCollider 80 5, 6 \<mapsto> newCollider 96 6],
        rowVisuals := [5 \<mapsto> newVisual 80, 6 \<mapsto> newVisual 96]\<rparr>"










text \<open>The horizontal centre of the column \<open>tileX\<close>, where its entities are spawned.\<close>

definition cellCentreX :: "nat \<Rightarrow> real" where
  "cellCentreX tileX = fadd (fmul (real tileX) TILE_SIZE) (fdiv TILE_SIZE 2)"

text \<open>
  The outcome of the occupancy check for the column \<open>tileX\<close> of a row whose surface is
  at \<open>spawnSurfaceY\<close>.
\<close>

definition cellOccupied :: "terrain \<Rightarrow> real \<Rightarrow> nat \<Rightarrow> bool" where
  "cellOccupied s spawnSurfaceY tileX =
     groupsOccupied
       (bodyHit (cellCentreX tileX) spawnSurfaceY (fmul TILE_SIZE (double (8 / 10))))
       [Some (bouldersGroup s), Some (enemiesGroup s), spikesGroup s, coinsGroup s]"

text \<open>The number of random numbers the column draws, given the occupancy and the rolls.\<close>

definition cellDraws :: "terrain \<Rightarrow> bool \<Rightarrow> real \<Rightarrow> real \<Rightarrow> real \<Rightarrow> nat" where
  "cellDraws s occupied currentBoulderChance currentEnemyChance currentSpikeChance =
     (if occupied then 0
      else if randoms s 0 < currentBoulderChance then 1
      else if randoms s 1 < currentEnemyChance then 2
      else if randoms s 2 < currentSpikeChance \<and> spikesGroup s \<noteq> None then 3
      else 4)"

text \<open>The number of children of an optional group.\<close>

definition groupSize :: "entity list option \<Rightarrow> nat" where
  "groupSize g = (case g of None \<Rightarrow> 0 | Some children \<Rightarrow> length children)"

text \<open>
  What \<open>generateRow\<close> computes for the row at \<open>worldY\<close> before it enters the loop over
  the columns: the height of the surface entities stand on, the chances and the enemy
  speed scaled by the depth, and the state in which the collider and the visual of the
  row are stored.
\<close>

definition rowSurfaceY :: "real \<Rightarrow> real" where
  "rowSurfaceY worldY =
     fsub (fadd worldY (fmul TILE_SIZE (double (9 / 10))))
       (fdiv (fmul TILE_SIZE (double (1 / 10))) 2)"

definition rowDepthFactor :: "real \<Rightarrow> real" where
  "rowDepthFactor worldY =
     fmul (max 0 (real_of_int (tileRow worldY - (initialPlatformRows + 1))))
       difficultyScaleFactor"

definition rowBoulderChance :: "real \<Rightarrow> real" where
  "rowBoulderChance worldY = fadd boulderSpawnChanceBase (rowDepthFactor worldY)"

definition rowEnemyChance :: "real \<Rightarrow> real" where
  "rowEnemyChance worldY = fadd enemySpawnChanceBase (rowDepthFactor worldY)"

definition rowSpikeChance :: "real \<Rightarrow> real" where
  "rowSpikeChance worldY = fadd spikeSpawnChanceBase (rowDepthFactor worldY)"

definition rowCoinChance :: "real \<Rightarrow> real" where
  "rowCoinChance worldY = fadd coinSpawnChanceBase (rowDepthFactor worldY)"

definition rowEnemySpeed :: "real \<Rightarrow> real" where
  "rowEnemySpeed worldY =
     min 100
       (fadd baseEnemySpeed
          (fmul (real_of_int (tileRow worldY - (initialPlatformRows + 1)))
             enemySpeedDepthScale))"

definition rowStored :: "terrain \<Rightarrow> real \<Rightarrow> terrain" where
  "rowStored s worldY =
     s\<lparr>rowColliderGroup := rowColliderGroup s @ [newCollider worldY (tileRow worldY)],
       rowColliders := (rowColliders s)(tileRow worldY \<mapsto> newCollider worldY (tileRow worldY)),
       rowVisualsGroup := rowVisualsGroup s @ [newVisual worldY],
       rowVisuals := (rowVisuals s)(tileRow worldY \<mapsto> newVisual worldY)\<rparr>"

text \<open>
  A fresh terrain whose random numbers make the boulder roll of the first cell the only
  success: the first number is 0, the others one half.
\<close>

definition boulderTerrain :: terrain where
  "boulderTerrain = freshTerrain\<lparr>randoms := (\<lambda>n. if n = 0 then 0 else 1 / 2)\<rparr>"

text \<open>The calls \<open>generateRow(y)\<close> made in turn for the values \<open>ys\<close> of the loop variable.\<close>

definition generateRows :: "classes \<Rightarrow> real list \<Rightarrow> terrain \<Rightarrow> terrain" where
  "generateRows E ys s = fold (\<lambda>y t. generateRow E t y False) ys s"

text \<open>
  The doubles \<open>351.99999999999994\<close> and \<open>511.99999999999994\<close>, the largest ones below
  352 and 512.
\<close>

definition nearly352 :: real where
  "nearly352 = 352 - 1 / 2 ^ 44"

definition nearly512 :: real where
  "nearly512 = 512 - 1 / 2 ^ 44"


section \<open>Rounding to doubles\<close>

lemma round_even_error: "\<bar>real_of_int (round_even q) - q\<bar> \<le> 1 / 2"
proof -
  have "real_of_int \<lfloor>q\<rfloor> \<le> q" and "q < real_of_int \<lfloor>q\<rfloor> + 1"
    by linarith+
  then show ?thesis
    by (auto simp add: round_even_def Let_def)
qed

lemma round_even_of_int: "round_even (real_of_int n) = n"
  by (simp add: round_even_def)

lemma two_powr_int_split:
  "u \<le> k \<Longrightarrow> (2 :: real) powr of_int k = 2 ^ nat (k - u) * 2 powr of_int u"
proof -
  assume "u \<le> k"
  then have "real_of_int k = real (nat (k - u)) + real_of_int u"
    by simp
  then have "(2 :: real) powr of_int k = 2 powr real (nat (k - u)) * 2 powr of_int u"
    by (simp only: powr_add)
  then show ?thesis
    by (simp add: powr_realpow)
qed

lemma floor_log2_less:
  assumes "x \<noteq> 0" and "\<bar>x\<bar> < 2 powr of_int n"
  shows "\<lfloor>log 2 \<bar>x\<bar>\<rfloor> < n"
proof -
  have "log 2 \<bar>x\<bar> < of_int n"
    using assms by (simp add: log_less_iff)
  then show ?thesis
    by (simp add: floor_less_iff)
qed

lemma floor_log2_eq:
  assumes "2 powr of_int e \<le> \<bar>x\<bar>" and "\<bar>x\<bar> < 2 powr of_int (e + 1)"
  shows "\<lfloor>log 2 \<bar>x\<bar>\<rfloor> = e"
proof -
  have pos: "0 < \<bar>x\<bar>"
    using assms(1) powr_gt_zero [of 2 "of_int e"] by linarith
  have "of_int e \<le> log 2 \<bar>x\<bar>"
    using assms(1) pos by (simp add: le_log_iff)
  moreover have "log 2 \<bar>x\<bar> < of_int e + 1"
    using assms(2) pos by (simp add: log_less_iff)
  ultimately show ?thesis
    by (simp add: floor_eq_iff)
qed

lemma below_overflow: "\<bar>x\<bar> < 2 ^ 54 \<Longrightarrow> \<bar>x\<bar> < overflow_bound"
proof -
  assume "\<bar>x\<bar> < 2 ^ 54"
  also have "(2 :: real) ^ 54 \<le> 2 ^ 1024"
    by (rule power_increasing) simp_all
  finally show ?thesis
    by (simp only: overflow_bound_def)
qed

lemma double_exact:
  assumes x: "x = real_of_int m * 2 powr of_int k"
    and m: "\<bar>m\<bar> < 2 ^ 53" and k: "- 1074 \<le> k" and fin: "\<bar>x\<bar> < overflow_bound"
  shows "double x = x"
proof (cases "x = 0")
  case True
  then show ?thesis
    by (simp add: double_def)
next
  case False
  define u where "u = ulp_exponent x"
  have "\<bar>x\<bar> = \<bar>real_of_int m\<bar> * 2 powr of_int k"
    by (simp add: x abs_mult)
  also have "\<dots> < 2 ^ 53 * 2 powr of_int k"
  proof -
    have "\<bar>real_of_int m\<bar> < 2 ^ 53"
      using m by (metis of_int_abs of_int_less_iff of_int_numeral of_int_power)
    then show ?thesis
      by (simp add: mult_strict_right_mono)
  qed
  also have "\<dots> = 2 powr of_int (53 + k)"
    using two_powr_int_split [of k "53 + k"] by simp
  finally have "\<lfloor>log 2 \<bar>x\<bar>\<rfloor> < 53 + k"
    using False by (intro floor_log2_less)
  then have u: "u \<le> k"
    using k by (simp add: u_def ulp_exponent_def)
  have pos: "0 < (2 :: real) powr of_int u"
    by simp
  have "x / 2 powr of_int u = real_of_int m * (2 powr of_int k / 2 powr of_int u)"
    by (simp only: x times_divide_eq_right)
  also have "2 powr of_int k / 2 powr of_int u = (2 :: real) ^ nat (k - u)"
    using pos by (simp add: two_powr_int_split [OF u])
  finally have q: "x / 2 powr of_int u = real_of_int (m * 2 ^ nat (k - u))"
    by simp
  have "real_of_int (round_even (x / 2 powr of_int u)) * 2 powr of_int u =
        x / 2 powr of_int u * 2 powr of_int u"
    by (simp only: q round_even_of_int)
  also have "\<dots> = x"
    using pos by simp
  finally have "real_of_int (round_even (x / 2 powr of_int u)) * 2 powr of_int u = x" .
  then show ?thesis
    using False fin by (simp add: double_def Let_def u_def [symmetric])
qed

lemma double_of_int: "\<bar>n\<bar> < 2 ^ 53 \<Longrightarrow> double (real_of_int n) = real_of_int n"
proof -
  assume n: "\<bar>n\<bar> < 2 ^ 53"
  then have "\<bar>real_of_int n\<bar> < 2 ^ 53"
    by (metis of_int_abs of_int_less_iff of_int_numeral of_int_power)
  then have "\<bar>real_of_int n\<bar> < overflow_bound"
    by (intro below_overflow) simp
  then show ?thesis
    using n by (intro double_exact [of _ n 0]) simp_all
qed

lemma double_abs_error:
  assumes "\<bar>x\<bar> < 2 ^ 53"
  shows "\<bar>double x - x\<bar> \<le> 1 / 2"
proof (cases "x = 0")
  case True
  then show ?thesis
    by (simp add: double_def)
next
  case False
  define u :: real where "u = 2 powr of_int (ulp_exponent x)"
  define r where "r = real_of_int (round_even (x / u)) * u"
  have "\<bar>x\<bar> < 2 powr of_int 53"
    using assms by (simp add: powr_realpow [symmetric])
  then have "\<lfloor>log 2 \<bar>x\<bar>\<rfloor> < 53"
    using False by (intro floor_log2_less)
  then have "ulp_exponent x \<le> 0"
    by (simp add: ulp_exponent_def)
  then have small: "u \<le> 1"
    using powr_mono [of "of_int (ulp_exponent x)" 0 "2 :: real"] by (simp add: u_def)
  have pos: "0 < u"
    by (simp add: u_def)
  have "r - x = (real_of_int (round_even (x / u)) - x / u) * u"
    using pos by (simp add: r_def algebra_simps)
  then have "\<bar>r - x\<bar> = \<bar>real_of_int (round_even (x / u)) - x / u\<bar> * u"
    using pos by (simp add: abs_mult)
  also have "\<dots> \<le> 1 / 2 * 1"
    using round_even_error [of "x / u"] small pos
    by (intro mult_mono) simp_all
  finally have err: "\<bar>r - x\<bar> \<le> 1 / 2"
    by simp
  then have "\<bar>r\<bar> < 2 ^ 53 + 1"
    using assms by linarith
  also have "\<dots> \<le> (2 :: real) ^ 54"
    by simp
  finally have "\<bar>r\<bar> < overflow_bound"
    by (rule below_overflow)
  then have "double x = r"
    using False by (simp add: double_def Let_def u_def r_def)
  then show ?thesis
    using err by simp
qed

lemma double_normal:
  assumes "2 powr of_int e \<le> \<bar>x\<bar>" and "\<bar>x\<bar> < 2 powr of_int (e + 1)"
    and "- 1022 \<le> e"
    and "\<bar>real_of_int (round_even (x / 2 powr of_int (e - 52))) * 2 powr of_int (e - 52)\<bar>
           < overflow_bound"
  shows "double x = real_of_int (round_even (x / 2 powr of_int (e - 52))) * 2 powr of_int (e - 52)"
proof -
  have "x \<noteq> 0"
    using assms(1) powr_gt_zero [of 2 "of_int e"] by auto
  moreover have "ulp_exponent x = e - 52"
    using floor_log2_eq [OF assms(1,2)] assms(3) by (simp add: ulp_exponent_def)
  ultimately show ?thesis
    using assms(4) by (simp add: double_def Let_def)
qed

lemma double_zero [simp]: "double 0 = 0"
  by (simp add: double_def)

lemma double_numeral [simp]:
  "numeral w < (9007199254740992 :: real) \<Longrightarrow> double (numeral w) = numeral w"
proof -
  assume "numeral w < (9007199254740992 :: real)"
  then have "\<bar>numeral w :: int\<bar> < 2 ^ 53"
    by (simp flip: of_int_less_iff [where 'a = real])
  then show ?thesis
    using double_of_int [of "numeral w"] by simp
qed

lemma double_neg_numeral [simp]:
  "numeral w < (9007199254740992 :: real) \<Longrightarrow> double (- numeral w) = - numeral w"
proof -
  assume "numeral w < (9007199254740992 :: real)"
  then have "\<bar>- numeral w :: int\<bar> < 2 ^ 53"
    by (simp flip: of_int_less_iff [where 'a = real])
  then show ?thesis
    using double_of_int [of "- numeral w"] by simp
qed

lemma double_one [simp]: "double 1 = 1"
  using double_of_int [of 1] by simp

lemma double_dyadic:
  "\<bar>m\<bar> < 2 ^ 53 \<Longrightarrow> n \<le> 1074 \<Longrightarrow> double (real_of_int m / 2 ^ n) = real_of_int m / 2 ^ n"
proof -
  assume m: "\<bar>m\<bar> < 2 ^ 53" and n: "n \<le> 1074"
  have eq: "real_of_int m / 2 ^ n = real_of_int m * 2 powr of_int (- int n)"
    by (simp add: powr_minus powr_realpow divide_inverse)
  have "\<bar>real_of_int m\<bar> < 2 ^ 53"
    using m by (metis of_int_abs of_int_less_iff of_int_numeral of_int_power)
  moreover have "\<bar>real_of_int m / 2 ^ n\<bar> \<le> \<bar>real_of_int m\<bar>"
    by (simp add: field_simps mult_le_cancel_left1)
  moreover have "(2 :: real) ^ 53 \<le> 2 ^ 54"
    by simp
  ultimately have "\<bar>real_of_int m / 2 ^ n\<bar> < overflow_bound"
    by (intro below_overflow) linarith
  then show ?thesis
    using m n by (intro double_exact [of _ m "- int n"]) (simp_all add: eq)
qed
lemma round_even_near:
  assumes "real_of_int m - 1 / 2 < q" and "q < real_of_int m + 1 / 2"
  shows "round_even q = m"
proof -
  define f where "f = \<lfloor>q\<rfloor>"
  have f: "real_of_int f \<le> q" "q < real_of_int f + 1"
    unfolding f_def by linarith+
  have "f = m \<or> f = m - 1"
    using assms f by linarith
  then show ?thesis
  proof
    assume "f = m"
    then show ?thesis
      using assms by (simp add: round_even_def Let_def f_def [symmetric])
  next
    assume "f = m - 1"
    then show ?thesis
      using assms by (simp add: round_even_def Let_def f_def [symmetric])
  qed
qed

lemma round_even_tie:
  assumes "q = real_of_int m - 1 / 2" and "even m"
  shows "round_even q = m"
proof -
  have "\<lfloor>q\<rfloor> = m - 1"
    using assms(1) by linarith
  then show ?thesis
    using assms by (simp add: round_even_def Let_def)
qed

lemma double_round:
  assumes lo: "2 ^ 52 \<le> x * 2 ^ n" and hi: "x * 2 ^ n < 2 ^ 53" and n: "n \<le> 1074"
    and r: "round_even (x * 2 ^ n) = m"
  shows "double x = real_of_int m / 2 ^ n"
proof -
  define e where "e = 52 - int n"
  have p: "(2 :: real) powr of_int (e - 52) = 1 / 2 ^ n"
    by (simp add: e_def powr_minus powr_realpow divide_inverse)
  have pe: "(2 :: real) powr of_int e = 2 ^ 52 * (1 / 2 ^ n)"
    using two_powr_int_split [of "e - 52" e] unfolding p by simp
  have pe1: "(2 :: real) powr of_int (e + 1) = 2 ^ 53 * (1 / 2 ^ n)"
    using two_powr_int_split [of "e - 52" "e + 1"] unfolding p by simp
  have pos: "(0 :: real) < 2 ^ n"
    by simp
  have "(0 :: real) < 2 ^ 52"
    by simp
  then have "0 < x * 2 ^ n"
    using lo by linarith
  then have x: "0 < x"
    using pos by (simp add: zero_less_mult_iff)
  have a: "2 powr of_int e \<le> \<bar>x\<bar>"
    using lo x pos unfolding pe by (simp add: field_simps)
  have b: "\<bar>x\<bar> < 2 powr of_int (e + 1)"
    using hi x pos unfolding pe1 by (simp add: field_simps)
  have c: "- 1022 \<le> e"
    using n by (simp add: e_def)
  have rr: "round_even (x / 2 powr of_int (e - 52)) = m"
    using r unfolding p by simp
  have "\<bar>real_of_int m - x * 2 ^ n\<bar> \<le> 1 / 2"
    using round_even_error [of "x * 2 ^ n"] unfolding r .
  moreover have "(2 :: real) ^ 53 + 1 / 2 \<le> 2 ^ 54"
    by simp
  ultimately have m: "\<bar>real_of_int m\<bar> < 2 ^ 54"
    using hi \<open>0 < x * 2 ^ n\<close> by linarith
  have "\<bar>real_of_int m / 2 ^ n\<bar> \<le> \<bar>real_of_int m\<bar>"
    by (simp add: field_simps mult_le_cancel_left1)
  then have "\<bar>real_of_int m / 2 ^ n\<bar> < 2 ^ 54"
    using m by linarith
  then have "\<bar>real_of_int m / 2 ^ n\<bar> < overflow_bound"
    by (rule below_overflow)
  then have d: "\<bar>real_of_int (round_even (x / 2 powr of_int (e - 52))) *
      2 powr of_int (e - 52)\<bar> < overflow_bound"
    unfolding p by (simp add: r)
  show ?thesis
    using double_normal [OF a b c d] unfolding p by (simp add: r)
qed

lemma double_eq:
  assumes "x = numeral w / 2 ^ n" and "numeral w < (2 :: real) ^ 53" and "n \<le> 1074"
  shows "double x = numeral w / 2 ^ n"
proof -
  have "\<bar>numeral w :: int\<bar> < 2 ^ 53"
    using assms(2) by (simp flip: of_int_less_iff [where 'a = real])
  then show ?thesis
    using double_dyadic [of "numeral w" n] assms(1,3) by simp
qed

lemma double_eq_neg:
  assumes "x = - (numeral w / 2 ^ n)" and "numeral w < (2 :: real) ^ 53" and "n \<le> 1074"
  shows "double x = - (numeral w / 2 ^ n)"
proof -
  have "\<bar>- numeral w :: int\<bar> < 2 ^ 53"
    using assms(2) by (simp flip: of_int_less_iff [where 'a = real])
  then show ?thesis
    using double_dyadic [of "- numeral w" n] assms(1,3) by simp
qed

lemma double_near:
  assumes "2 ^ 52 \<le> x * 2 ^ n" and "x * 2 ^ n < 2 ^ 53" and "n \<le> 1074"
    and "numeral w - 1 / 2 < x * 2 ^ n" and "x * 2 ^ n < numeral w + 1 / 2"
  shows "double x = numeral w / 2 ^ n"
proof -
  have "round_even (x * 2 ^ n) = numeral w"
    using assms(4,5) by (intro round_even_near) simp_all
  then show ?thesis
    using double_round [OF assms(1-3), of "numeral w"] by simp
qed

lemma double_tie:
  assumes "2 ^ 52 \<le> x * 2 ^ n" and "x * 2 ^ n < 2 ^ 53" and "n \<le> 1074"
    and "x * 2 ^ n = numeral w - 1 / 2" and "even (numeral w :: int)"
  shows "double x = numeral w / 2 ^ n"
proof -
  have "round_even (x * 2 ^ n) = numeral w"
    using assms(4,5) by (intro round_even_tie) simp_all
  then show ?thesis
    using double_round [OF assms(1-3), of "numeral w"] by simp
qed

lemma double_consts:
  "double (9 / 10) = 8106479329266893 / 2 ^ 53"
  "double (1 / 10) = 7205759403792794 / 2 ^ 56"
  "double (8 / 10) = 7205759403792794 / 2 ^ 53"
  "double (3 / 100) = 8646911284551352 / 2 ^ 58"
  "double (8 / 1000) = 4611686018427388 / 2 ^ 59"
  "double (5 / 1000) = 5764607523034235 / 2 ^ 60"
  "double (3 / 1000) = 6917529027641082 / 2 ^ 61"
  by (rule double_near; simp)+


section \<open>What the operations change\<close>

lemma spawn_frame_refl: "spawn_frame s s"
  by (simp add: spawn_frame_def)

lemma spawn_frame_trans: "spawn_frame s t \<Longrightarrow> spawn_frame t u \<Longrightarrow> spawn_frame s u"
  by (simp add: spawn_frame_def)

lemma Math_random_frame: "spawn_frame s (snd (Math_random s))"
  by (simp add: spawn_frame_def Math_random_def)

lemma rollHazard_frame:
  "spawn_frame s (snd (rollHazard E wx sy ky bc ec sc sp s))"
  by (simp add: rollHazard_def Math_random_def spawn_frame_def Let_def split: option.split)

lemma rollCoin_frame: "spawn_frame s (rollCoin E wx sy cc occ s)"
  by (simp add: rollCoin_def Math_random_def spawn_frame_def Let_def)

lemma spawnCell_frame: "spawn_frame s (spawnCell E sy ky bc ec sc cc sp tileX s)"
proof -
  have step: "spawn_frame s (rollCoin E wx sy cc (fst (rollHazard E wx sy ky bc ec sc sp s))
      (snd (rollHazard E wx sy ky bc ec sc sp s)))" for wx
    using rollHazard_frame rollCoin_frame by (rule spawn_frame_trans)
  show ?thesis
    by (simp add: spawnCell_def Let_def spawn_frame_refl case_prod_beta step)
qed

lemma fold_spawnCell_frame:
  "spawn_frame s (fold (spawnCell E sy ky bc ec sc cc sp) xs s)"
proof (induction xs arbitrary: s)
  case Nil
  show ?case by (simp add: spawn_frame_refl)
next
  case (Cons a xs)
  have "spawn_frame s (spawnCell E sy ky bc ec sc cc sp a s)"
    by (rule spawnCell_frame)
  then show ?case
    using Cons.IH spawn_frame_trans by fastforce
qed

lemma generateRow_skip:
  "\<not> generates s worldY force \<Longrightarrow> generateRow E s worldY force = s"
  by (auto simp add: generates_def generateRow_def tileRow_def Let_def)

lemma generateRow_frame:
  "generatedRowsMaxY (generateRow E s worldY force) = generatedRowsMaxY s"
  "particleManager (generateRow E s worldY force) = particleManager s"
  "events (generateRow E s worldY force) = events s"
  using fold_spawnCell_frame
  by (simp_all add: generateRow_def Let_def spawn_frame_def)

lemma generateRow_store:
  assumes "generates s worldY force"
  shows "rowColliders (generateRow E s worldY force) =
           (rowColliders s)(tileRow worldY \<mapsto> newCollider worldY (tileRow worldY))"
    and "rowVisuals (generateRow E s worldY force) =
           (rowVisuals s)(tileRow worldY \<mapsto> newVisual worldY)"
    and "rowColliderGroup (generateRow E s worldY force) =
           rowColliderGroup s @ [newCollider worldY (tileRow worldY)]"
    and "rowVisualsGroup (generateRow E s worldY force) =
           rowVisualsGroup s @ [newVisual worldY]"
  using assms fold_spawnCell_frame
  by (auto simp add: generates_def generateRow_def tileRow_def Let_def spawn_frame_def domIff)

lemma clearCurrentRow_absent:
  "rowColliders s (tileRow y + 1) = None \<Longrightarrow> clearCurrentRow E s y = (False, s)"
  by (simp add: clearCurrentRow_def tileRow_def Let_def)

lemma clearCurrentRow_result:
  "fst (clearCurrentRow E s y) = (rowColliders s (tileRow y + 1) \<noteq> None)"
  by (simp add: clearCurrentRow_def tileRow_def Let_def split: option.split)

lemma clearCurrentRow_rowColliders:
  "rowColliders (snd (clearCurrentRow E s y)) = (rowColliders s)(tileRow y + 1 := None)"
  by (auto simp add: clearCurrentRow_def tileRow_def Let_def split: option.split)

lemma clearCurrentRow_rowVisuals:
  "rowVisuals (snd (clearCurrentRow E s y)) =
     (if rowColliders s (tileRow y + 1) = None then rowVisuals s
      else (rowVisuals s)(tileRow y + 1 := None))"
  by (auto simp add: clearCurrentRow_def tileRow_def Let_def split: option.split)

lemma clearCurrentRow_spikes:
  "spikesGroup (snd (clearCurrentRow E s y)) =
     (if rowColliders s (tileRow y + 1) = None then spikesGroup s
      else map_option (map (clearSpike E (real_of_int (tileRow y) * TILE_SIZE))) (spikesGroup s))"
  by (auto simp add: clearCurrentRow_def tileRow_def Let_def split: option.split)

lemma clearCurrentRow_frame:
  "bouldersGroup (snd (clearCurrentRow E s y)) = bouldersGroup s"
  "enemiesGroup (snd (clearCurrentRow E s y)) = enemiesGroup s"
  "coinsGroup (snd (clearCurrentRow E s y)) = coinsGroup s"
  "generatedRowsMaxY (snd (clearCurrentRow E s y)) = generatedRowsMaxY s"
  "randoms (snd (clearCurrentRow E s y)) = randoms s"
  by (simp_all add: clearCurrentRow_def Let_def split: option.split)

lemma clearCurrentRow_events:
  "events (snd (clearCurrentRow E s y)) =
     (if rowColliders s (tileRow y + 1) = None then events s
      else events s @ [DirtRowCleared (tileRow y + 1)])"
  by (auto simp add: clearCurrentRow_def tileRow_def Let_def split: option.split)

lemma clearCurrentRow_particles:
  "particleManager (snd (clearCurrentRow E s y)) =
     (if rowColliders s (tileRow y + 1) = None then particleManager s
      else map_option
             (\<lambda>calls. calls @
                dirtParticles (real_of_int (tileRow y + 1) * TILE_SIZE + TILE_SIZE / 2) @
                spikeParticles (real_of_int (tileRow y) * TILE_SIZE + TILE_SIZE / 2))
             (particleManager s))"
  by (auto simp add: clearCurrentRow_def tileRow_def Let_def split: option.split)

lemma demo_rows:
  "rowColliders demoTerrain = [5 \<mapsto> newCollider 80 5, 6 \<mapsto> newCollider 96 6]"
  "rowVisuals demoTerrain = [5 \<mapsto> newVisual 80, 6 \<mapsto> newVisual 96]"
  by (simp_all add: demoTerrain_def)

lemma tileRow_numeral [simp]:
  "tileRow 80 = 5" "tileRow 81 = 5" "tileRow 96 = 6" "tileRow 97 = 6"
  by (simp_all add: tileRow_def TILE_SIZE_def)


section \<open>Clearing a row that is not stored\<close>

text \<open>
  Claim C2. Whenever the target row of a trigger coordinate, the row
  \<open>floor(triggerWorldY / TILE_SIZE) + 1\<close>, has no collider in the collider map,
  \<open>clearCurrentRow\<close> returns \<open>false\<close> and hands back the state it was given: no map
  entry is removed, no spike is damaged, no particle call is made and no event is
  emitted.
\<close>

theorem clearCurrentRow_absent_is_noop:
  "rowColliders s (\<lfloor>triggerWorldY / TILE_SIZE\<rfloor> + 1) = None \<Longrightarrow>
   clearCurrentRow E s triggerWorldY = (False, s)"
  by (simp add: clearCurrentRow_def Let_def)

theorem clearCurrentRow_absent_is_noop_witness:
  "rowColliders demoTerrain (\<lfloor>97 / TILE_SIZE\<rfloor> + 1) = None \<and>
   clearCurrentRow plainClasses demoTerrain 97 = (False, demoTerrain)"
proof -
  have absent: "rowColliders demoTerrain (\<lfloor>97 / TILE_SIZE\<rfloor> + 1) = None"
    by (simp add: demo_rows TILE_SIZE_def)
  show ?thesis
    using absent clearCurrentRow_absent_is_noop [OF absent, of plainClasses] by simp
qed


section \<open>The platform rows are not generated naturally\<close>

text \<open>
  Claim C4. For a world coordinate whose row index is at most the initial platform row,
  \<open>generateRow\<close> without force returns the state unchanged: no collider and no visual
  is stored for the index and no entity is spawned.
\<close>

theorem generateRow_platform_unforced:
  "\<lfloor>worldY / TILE_SIZE\<rfloor> \<le> initialPlatformRows \<Longrightarrow> generateRow E s worldY False = s"
  by (simp add: generateRow_def Let_def)

theorem generateRow_platform_unforced_witness:
  "\<lfloor>80 / TILE_SIZE\<rfloor> \<le> initialPlatformRows \<and>
   generateRow plainClasses freshTerrain 80 False = freshTerrain"
proof -
  have platform: "\<lfloor>80 / TILE_SIZE\<rfloor> \<le> initialPlatformRows"
    by (simp add: TILE_SIZE_def initialPlatformRows_def)
  show ?thesis
    using platform generateRow_platform_unforced [OF platform, of plainClasses freshTerrain]
    by simp
qed


section \<open>The two row maps keep the same keys\<close>

lemma generateRow_consistent:
  assumes "rows_consistent s"
  shows "rows_consistent (generateRow E s worldY force)"
proof (cases "generates s worldY force")
  case True
  then show ?thesis
    using assms by (simp add: rows_consistent_def generateRow_store)
next
  case False
  then show ?thesis
    using assms by (simp add: generateRow_skip)
qed

lemma clearCurrentRow_consistent:
  assumes "rows_consistent s"
  shows "rows_consistent (snd (clearCurrentRow E s y))"
  using assms
  by (auto simp add: rows_consistent_def clearCurrentRow_rowColliders
      clearCurrentRow_rowVisuals)

lemma update_loop_consistent:
  assumes "update_loop E y endY s = Some s'"
  shows "rows_consistent s \<Longrightarrow> rows_consistent s'"
  using assms
proof (induction rule: update_loop.raw_induct)
  case (1 loop E y endY s s')
  then show ?case
    using update_loop.simps [of E y endY s]
    by (auto split: if_splits simp add: generateRow_consistent)
qed (rule assms)

lemma update_loop_returns:
  assumes "- (2 ^ 52) \<le> y" and "endY \<le> 2 ^ 52"
  shows "\<exists>s'. update_loop E y endY s = Some s'"
  using assms
proof (induction "nat \<lceil>endY - y\<rceil>" arbitrary: y s rule: less_induct)
  case less
  show ?case
  proof (cases "y < endY")
    case False
    then show ?thesis
      by (simp add: update_loop.simps)
  next
    case True
    define y' where "y' = fadd y TILE_SIZE"
    define s1 where "s1 = (if y \<ge> real_of_int (initialPlatformRows + 1) * TILE_SIZE
      then generateRow E s y False else s)"
    have two: "(2 :: real) ^ 53 = 2 * 2 ^ 52"
      by simp
    have "(16 :: real) < 2 ^ 52"
      by simp
    then have "\<bar>y + 16\<bar> < 2 ^ 53"
      using True less.prems unfolding two by linarith
    then have "\<bar>y' - (y + 16)\<bar> \<le> 1 / 2"
      unfolding y'_def fadd_def TILE_SIZE_def by (rule double_abs_error)
    then have step: "y + 15 \<le> y'"
      by linarith
    then have low: "- (2 ^ 52) \<le> y'"
      using less.prems(1) by linarith
    have "endY - y' \<le> (endY - y) - of_int 15"
      using step by simp
    then have "\<lceil>endY - y'\<rceil> \<le> \<lceil>(endY - y) - of_int 15\<rceil>"
      by (rule ceiling_mono)
    also have "\<dots> = \<lceil>endY - y\<rceil> - 15"
      by (simp only: ceiling_diff_of_int)
    finally have "\<lceil>endY - y'\<rceil> < \<lceil>endY - y\<rceil>"
      by simp
    moreover have "0 < \<lceil>endY - y\<rceil>"
      using True by simp
    ultimately have "nat \<lceil>endY - y'\<rceil> < nat \<lceil>endY - y\<rceil>"
      by simp
    then have "\<exists>s'. update_loop E y' endY s1 = Some s'"
      using low less.prems(2) by (rule less.hyps)
    then show ?thesis
      using True by (subst update_loop.simps) (simp add: y'_def s1_def)
  qed
qed

lemma update_consistent:
  "update E s cameraBottomY = Some s' \<Longrightarrow> rows_consistent s \<Longrightarrow> rows_consistent s'"
  using update_loop_consistent
  by (fastforce simp add: update_def Let_def rows_consistent_def split: if_splits)

lemma update_returns:
  assumes "- (2 ^ 52) \<le> generatedRowsMaxY s"
    and "fadd cameraBottomY (fmul TILE_SIZE 10) \<le> 2 ^ 52"
  shows "\<exists>s'. update E s cameraBottomY = Some s'"
  using update_loop_returns [OF assms, of E s] by (auto simp add: update_def Let_def)

lemma clearBlastRows_consistent:
  "rows_consistent s \<Longrightarrow> rows_consistent (clearBlastRows E d c dys s)"
  by (induction dys arbitrary: s) (simp_all add: Let_def clearCurrentRow_consistent)

lemma damageInBlast_rows:
  "rowColliders (damageInBlast E s d) = rowColliders s"
  "rowVisuals (damageInBlast E s d) = rowVisuals s"
  by (simp_all add: damageInBlast_def Let_def split: option.split)

lemma handleCreateExplosion_consistent:
  "rows_consistent s \<Longrightarrow> rows_consistent (handleCreateExplosion E s d)"
  using clearBlastRows_consistent
  by (simp add: handleCreateExplosion_def clearRowsInBlast_def Let_def rows_consistent_def
      damageInBlast_rows)

text \<open>
  Claim C10. The collider map and the visual map have the same set of row indices, and
  each of \<open>generateRow\<close>, \<open>clearCurrentRow\<close>, \<open>update\<close> and
  \<open>handleCreateExplosion\<close> keeps it so: started in a state where a row index has a
  collider exactly when it has a visual, they end in such a state. For \<open>update\<close>,
  whose loop steps in double arithmetic, this is said of the state it returns, and it
  does return whenever the frontier is at least \<open>- 2 ^ 52\<close> and the threshold at most
  \<open>2 ^ 52\<close>.
\<close>

theorem row_maps_same_keys:
  assumes "dom (rowColliders s) = dom (rowVisuals s)"
  shows "dom (rowColliders (generateRow E s worldY force)) =
           dom (rowVisuals (generateRow E s worldY force)) \<and>
         dom (rowColliders (snd (clearCurrentRow E s triggerWorldY))) =
           dom (rowVisuals (snd (clearCurrentRow E s triggerWorldY))) \<and>
         (\<forall>s'. update E s cameraBottomY = Some s' \<longrightarrow>
            dom (rowColliders s') = dom (rowVisuals s')) \<and>
         (- (2 ^ 52) \<le> generatedRowsMaxY s \<and>
          fadd cameraBottomY (fmul TILE_SIZE 10) \<le> 2 ^ 52 \<longrightarrow>
            (\<exists>s'. update E s cameraBottomY = Some s')) \<and>
         dom (rowColliders (handleCreateExplosion E s d)) =
           dom (rowVisuals (handleCreateExplosion E s d))"
proof -
  have start: "rows_consistent s"
    using assms by (simp add: rows_consistent_def)
  have "rows_consistent (generateRow E s worldY force)"
    using start by (rule generateRow_consistent)
  moreover have "rows_consistent (snd (clearCurrentRow E s triggerWorldY))"
    using start by (rule clearCurrentRow_consistent)
  moreover have "\<forall>s'. update E s cameraBottomY = Some s' \<longrightarrow> rows_consistent s'"
    using start update_consistent by blast
  moreover have "- (2 ^ 52) \<le> generatedRowsMaxY s \<and>
      fadd cameraBottomY (fmul TILE_SIZE 10) \<le> 2 ^ 52 \<longrightarrow>
      (\<exists>s'. update E s cameraBottomY = Some s')"
    using update_returns by blast
  moreover have "rows_consistent (handleCreateExplosion E s d)"
    using start by (rule handleCreateExplosion_consistent)
  ultimately show ?thesis
    by (simp add: rows_consistent_def)
qed

theorem row_maps_same_keys_witness:
  "dom (rowColliders demoTerrain) = dom (rowVisuals demoTerrain) \<and>
   dom (rowColliders (generateRow plainClasses demoTerrain 112 False)) =
     dom (rowVisuals (generateRow plainClasses demoTerrain 112 False)) \<and>
   dom (rowColliders (snd (clearCurrentRow plainClasses demoTerrain 81))) =
     dom (rowVisuals (snd (clearCurrentRow plainClasses demoTerrain 81))) \<and>
   (\<exists>s'. update plainClasses demoTerrain 0 = Some s' \<and>
      dom (rowColliders s') = dom (rowVisuals s')) \<and>
   dom (rowColliders (handleCreateExplosion plainClasses demoTerrain
          \<lparr>data_worldX = 200, data_worldY = 104, data_radius = 40\<rparr>)) =
     dom (rowVisuals (handleCreateExplosion plainClasses demoTerrain
          \<lparr>data_worldX = 200, data_worldY = 104, data_radius = 40\<rparr>))"
proof -
  have start: "dom (rowColliders demoTerrain) = dom (rowVisuals demoTerrain)"
    by (simp add: demo_rows)
  have range: "- (2 ^ 52) \<le> generatedRowsMaxY demoTerrain \<and>
      fadd 0 (fmul TILE_SIZE 10) \<le> 2 ^ 52"
    by (simp add: demoTerrain_def freshTerrain_def constructor_def initialClearRows_def
        TILE_SIZE_def fadd_def fmul_def)
  note inst = row_maps_same_keys [OF start, of plainClasses 112 False 81 0
        "\<lparr>data_worldX = 200, data_worldY = 104, data_radius = 40\<rparr>"]
  note c1 = inst [THEN conjunct1]
  note c2 = inst [THEN conjunct2, THEN conjunct1]
  note c3 = inst [THEN conjunct2, THEN conjunct2, THEN conjunct1]
  note c4 = inst [THEN conjunct2, THEN conjunct2, THEN conjunct2, THEN conjunct1]
  note c5 = inst [THEN conjunct2, THEN conjunct2, THEN conjunct2, THEN conjunct2]
  from mp [OF c4 range] obtain s' where ret: "update plainClasses demoTerrain 0 = Some s'"
    by (rule exE)
  have same: "dom (rowColliders s') = dom (rowVisuals s')"
    by (rule mp [OF spec [OF c3] ret])
  from ret same have "\<exists>s'. update plainClasses demoTerrain 0 = Some s' \<and>
      dom (rowColliders s') = dom (rowVisuals s')"
    by (intro exI [of _ s'] conjI)
  with start c1 c2 c5 show ?thesis
    by (intro conjI)
qed


section \<open>Generating a row twice\<close>

lemma generateRow_group_lengths:
  "length (rowColliderGroup (generateRow E s worldY force)) \<le> length (rowColliderGroup s) + 1"
  "length (rowVisualsGroup (generateRow E s worldY force)) \<le> length (rowVisualsGroup s) + 1"
  by (cases "generates s worldY force"; simp add: generateRow_store generateRow_skip)+

lemma generateRow_present_skip:
  "rowColliders s (tileRow worldY) \<noteq> None \<Longrightarrow> generateRow E s worldY force = s"
  by (rule generateRow_skip) (simp add: generates_def)

lemma generateRow_stored_after:
  "generates s worldY force \<Longrightarrow>
   rowColliders (generateRow E s worldY force) (tileRow worldY) =
     Some (newCollider worldY (tileRow worldY))"
  by (simp add: generateRow_store)

text \<open>
  Claim C5. Let two calls of \<open>generateRow\<close> be made one after the other with world
  coordinates of the same row index \<open>k\<close>, under any force flags. If the index is in the
  collider map after the first call, the second call returns the state unchanged. In
  every case the two calls together add at most one collider to the collider group and
  at most one visual to the visuals group, and the maps hold at most the one entry for
  \<open>k\<close> that a map can hold. A call with an index below 0 or at or past the map height
  returns the state unchanged.
\<close>

theorem generateRow_twice_one_row:
  assumes "\<lfloor>y1 / TILE_SIZE\<rfloor> = k" and "\<lfloor>y2 / TILE_SIZE\<rfloor> = k"
  shows "(k \<in> dom (rowColliders (generateRow E s y1 f1)) \<longrightarrow>
            generateRow E (generateRow E s y1 f1) y2 f2 = generateRow E s y1 f1) \<and>
         length (rowColliderGroup (generateRow E (generateRow E s y1 f1) y2 f2))
           \<le> length (rowColliderGroup s) + 1 \<and>
         length (rowVisualsGroup (generateRow E (generateRow E s y1 f1) y2 f2))
           \<le> length (rowVisualsGroup s) + 1 \<and>
         (k < 0 \<or> mapHeightTiles \<le> k \<longrightarrow> generateRow E s y1 f1 = s)"
proof -
  let ?s1 = "generateRow E s y1 f1"
  let ?s2 = "generateRow E ?s1 y2 f2"
  have rows: "tileRow y1 = k" "tileRow y2 = k"
    using assms by (simp_all add: tileRow_def)
  have second: "?s2 = ?s1" if "k \<in> dom (rowColliders ?s1)"
    using that rows by (intro generateRow_present_skip) (auto simp add: domIff)
  have bounds: "?s1 = s" if "k < 0 \<or> mapHeightTiles \<le> k"
    using that rows by (intro generateRow_skip) (auto simp add: generates_def)
  have lengths:
    "length (rowColliderGroup ?s2) \<le> length (rowColliderGroup s) + 1 \<and>
     length (rowVisualsGroup ?s2) \<le> length (rowVisualsGroup s) + 1"
  proof (cases "generates s y1 f1")
    case True
    then have "k \<in> dom (rowColliders ?s1)"
      using rows generateRow_stored_after [OF True, of E] by (simp add: domIff)
    then have "?s2 = ?s1"
      by (rule second)
    then show ?thesis
      using generateRow_group_lengths [of E s y1 f1] by simp
  next
    case False
    then have "?s1 = s"
      by (rule generateRow_skip)
    then show ?thesis
      using generateRow_group_lengths [of E s y2 f2] by simp
  qed
  show ?thesis
    using second bounds lengths by blast
qed

lemma demo_generates_112: "generates demoTerrain 112 False"
  by (simp add: generates_def demo_rows tileRow_def TILE_SIZE_def mapHeightTiles_def
      initialPlatformRows_def)

theorem generateRow_twice_one_row_witness:
  "\<lfloor>112 / TILE_SIZE\<rfloor> = 7 \<and> \<lfloor>120 / TILE_SIZE\<rfloor> = 7 \<and>
   7 \<in> dom (rowColliders (generateRow plainClasses demoTerrain 112 False)) \<and>
   generateRow plainClasses (generateRow plainClasses demoTerrain 112 False) 120 True =
     generateRow plainClasses demoTerrain 112 False \<and>
   length (rowColliderGroup
       (generateRow plainClasses (generateRow plainClasses demoTerrain 112 False) 120 True))
     \<le> length (rowColliderGroup demoTerrain) + 1 \<and>
   length (rowVisualsGroup
       (generateRow plainClasses (generateRow plainClasses demoTerrain 112 False) 120 True))
     \<le> length (rowVisualsGroup demoTerrain) + 1"
proof -
  have r1: "\<lfloor>112 / TILE_SIZE\<rfloor> = 7" and r2: "\<lfloor>120 / TILE_SIZE\<rfloor> = 7"
    by (simp_all add: TILE_SIZE_def)
  have stored: "7 \<in> dom (rowColliders (generateRow plainClasses demoTerrain 112 False))"
    using generateRow_stored_after [OF demo_generates_112, of plainClasses] r1
    by (simp add: tileRow_def domIff)
  show ?thesis
    using r1 r2 stored
      generateRow_twice_one_row [OF r1 r2, of plainClasses demoTerrain False True]
    by blast
qed


section \<open>The scenario of the platform row\<close>

lemma generateRow_present_after:
  assumes "0 \<le> tileRow worldY" and "tileRow worldY < mapHeightTiles"
    and "force \<or> initialPlatformRows < tileRow worldY"
  shows "rowColliders (generateRow E s worldY force) (tileRow worldY) \<noteq> None"
proof (cases "generates s worldY force")
  case True
  then show ?thesis
    by (simp add: generateRow_store)
next
  case False
  then have "rowColliders s (tileRow worldY) \<noteq> None"
    using assms by (auto simp add: generates_def)
  then show ?thesis
    using False by (simp add: generateRow_skip)
qed

lemma platformScenario_row_6:
  "rowColliders (platformScenario E s) 6 \<noteq> None"
  using generateRow_present_after [of 96 False E "generateRow E s 80 True"]
  by (simp add: platformScenario_def mapHeightTiles_def initialPlatformRows_def)

lemma platformScenario_fresh_rows:
  "rowColliders (platformScenario E freshTerrain) =
     [5 \<mapsto> newCollider 80 5, 6 \<mapsto> newCollider 96 6]"
proof -
  have g1: "generates freshTerrain 80 True"
    by (simp add: generates_def freshTerrain_def constructor_def mapHeightTiles_def)
  have m1: "rowColliders (generateRow E freshTerrain 80 True) = [5 \<mapsto> newCollider 80 5]"
    using generateRow_store(1) [OF g1, of E]
    by (simp add: freshTerrain_def constructor_def)
  have g2: "generates (generateRow E freshTerrain 80 True) 96 False"
    by (simp add: generates_def m1 mapHeightTiles_def initialPlatformRows_def)
  show ?thesis
    using generateRow_store(1) [OF g2, of E] by (simp add: platformScenario_def m1)
qed

text \<open>
  Claim C1, as the code has it. In the scenario (row 5 forced at 80, row 6 generated at
  96) the target row of a trigger is \<open>floor(triggerWorldY / TILE_SIZE) + 1\<close>, so a
  trigger in the band of row 5, from 80 up to but not including 96, targets row 6:
  \<open>clearCurrentRow\<close> returns \<open>true\<close> and row 6 has no collider afterwards, and the
  same call repeated returns \<open>false\<close> and changes nothing.
\<close>

theorem scenario_clears_row_6:
  assumes "80 \<le> triggerWorldY" and "triggerWorldY < 96"
  shows "\<lfloor>triggerWorldY / TILE_SIZE\<rfloor> + 1 = 6 \<and>
         fst (clearCurrentRow E (platformScenario E s) triggerWorldY) = True \<and>
         rowColliders (snd (clearCurrentRow E (platformScenario E s) triggerWorldY)) 6 = None \<and>
         clearCurrentRow E (snd (clearCurrentRow E (platformScenario E s) triggerWorldY))
             triggerWorldY =
           (False, snd (clearCurrentRow E (platformScenario E s) triggerWorldY))"
proof -
  have "\<lfloor>triggerWorldY / TILE_SIZE\<rfloor> = 5"
    using assms by (simp add: TILE_SIZE_def floor_eq_iff)
  then have row: "tileRow triggerWorldY + 1 = 6"
    by (simp add: tileRow_def)
  let ?r = "clearCurrentRow E (platformScenario E s) triggerWorldY"
  have "fst ?r = True"
    using platformScenario_row_6 [of E s] by (simp add: clearCurrentRow_result row)
  moreover have gone: "rowColliders (snd ?r) 6 = None"
    by (simp add: clearCurrentRow_rowColliders row)
  moreover have "clearCurrentRow E (snd ?r) triggerWorldY = (False, snd ?r)"
    using gone by (intro clearCurrentRow_absent) (simp add: row)
  ultimately show ?thesis
    using row by (simp add: tileRow_def)
qed

theorem scenario_clears_row_6_witness:
  "(80 :: real) \<le> 81 \<and> (81 :: real) < 96 \<and> \<lfloor>81 / TILE_SIZE\<rfloor> + 1 = 6 \<and>
   fst (clearCurrentRow plainClasses (platformScenario plainClasses freshTerrain) 81) = True \<and>
   rowColliders
     (snd (clearCurrentRow plainClasses (platformScenario plainClasses freshTerrain) 81)) 6 =
     None \<and>
   clearCurrentRow plainClasses
       (snd (clearCurrentRow plainClasses (platformScenario plainClasses freshTerrain) 81)) 81 =
     (False, snd (clearCurrentRow plainClasses (platformScenario plainClasses freshTerrain) 81))"
proof -
  have lo: "(80 :: real) \<le> 81" and hi: "(81 :: real) < 96"
    by simp_all
  show ?thesis
    using lo hi scenario_clears_row_6 [OF lo hi, of plainClasses freshTerrain] by simp
qed

text \<open>
  Claim C1, as the specification states it, fails: the trigger 97 lies in the band of
  row 6, so its target is row 7, which the scenario never generated. The call returns
  \<open>false\<close> and the collider of row 6 stays in the map.
\<close>

theorem scenario_trigger_97_counterexample:
  "\<lfloor>97 / TILE_SIZE\<rfloor> + 1 = 7 \<and>
   fst (clearCurrentRow plainClasses (platformScenario plainClasses freshTerrain) 97) = False \<and>
   rowColliders
     (snd (clearCurrentRow plainClasses (platformScenario plainClasses freshTerrain) 97)) 6 =
     Some (newCollider 96 6)"
  by (simp add: clearCurrentRow_result clearCurrentRow_rowColliders
      platformScenario_fresh_rows TILE_SIZE_def)


section \<open>What clearing a row touches\<close>

lemma demo_spikes:
  "spikesGroup demoTerrain = Some [plainEntity 8 70 1, plainEntity 8 90 1, plainEntity 8 98 1]"
  by (simp add: demoTerrain_def)

text \<open>
  Claim C6, as the code has it. Clearing a stored row \<open>N\<close> removes the entry of \<open>N\<close>
  from the collider map and from the visual map and leaves every other entry as it was.
  One point of damage goes to exactly the active spikes whose \<open>y\<close> is greater than
  \<open>(N - 1) * TILE_SIZE\<close>, the top of the row above, and less than that top plus 1.2
  tile heights, a band that reaches a fifth of a tile into row \<open>N\<close> itself. Every other
  spike, in particular every spike whose \<open>y\<close> is at most \<open>(N - 1) * TILE_SIZE\<close>, is
  left as it was, and so are the boulders, the enemies and the coins.
\<close>

theorem clearCurrentRow_locality:
  assumes "\<lfloor>triggerWorldY / TILE_SIZE\<rfloor> + 1 = N" and "rowColliders s N \<noteq> None"
  shows "rowColliders (snd (clearCurrentRow E s triggerWorldY)) = (rowColliders s)(N := None) \<and>
         rowVisuals (snd (clearCurrentRow E s triggerWorldY)) = (rowVisuals s)(N := None) \<and>
         spikesGroup (snd (clearCurrentRow E s triggerWorldY)) =
           map_option
             (map (\<lambda>spike.
                if ent_active spike \<and> real_of_int (N - 1) * TILE_SIZE < ent_y spike \<and>
                   ent_y spike < real_of_int (N - 1) * TILE_SIZE + TILE_SIZE * (12 / 10)
                then Spike_takeDamage E 1 spike else spike))
             (spikesGroup s) \<and>
         bouldersGroup (snd (clearCurrentRow E s triggerWorldY)) = bouldersGroup s \<and>
         enemiesGroup (snd (clearCurrentRow E s triggerWorldY)) = enemiesGroup s \<and>
         coinsGroup (snd (clearCurrentRow E s triggerWorldY)) = coinsGroup s"
proof -
  have row: "tileRow triggerWorldY + 1 = N" and above: "tileRow triggerWorldY = N - 1"
    using assms(1) by (simp_all add: tileRow_def)
  have spike: "clearSpike E (real_of_int (N - 1) * TILE_SIZE) =
      (\<lambda>spike.
         if ent_active spike \<and> real_of_int (N - 1) * TILE_SIZE < ent_y spike \<and>
            ent_y spike < real_of_int (N - 1) * TILE_SIZE + TILE_SIZE * (12 / 10)
         then Spike_takeDamage E 1 spike else spike)"
    by (rule ext) (simp add: clearSpike_def)
  show ?thesis
    unfolding spike [symmetric]
    using assms(2)
    by (auto simp add: clearCurrentRow_rowColliders clearCurrentRow_rowVisuals
        clearCurrentRow_spikes clearCurrentRow_frame row above)
qed

theorem clearCurrentRow_locality_witness:
  "\<lfloor>81 / TILE_SIZE\<rfloor> + 1 = 6 \<and> rowColliders demoTerrain 6 \<noteq> None \<and>
   rowColliders (snd (clearCurrentRow plainClasses demoTerrain 81)) =
     [5 \<mapsto> newCollider 80 5] \<and>
   rowVisuals (snd (clearCurrentRow plainClasses demoTerrain 81)) = [5 \<mapsto> newVisual 80] \<and>
   spikesGroup (snd (clearCurrentRow plainClasses demoTerrain 81)) =
     Some [plainEntity 8 70 1,
           plainTakeDamage 1 (plainEntity 8 90 1),
           plainTakeDamage 1 (plainEntity 8 98 1)] \<and>
   bouldersGroup (snd (clearCurrentRow plainClasses demoTerrain 81)) =
     bouldersGroup demoTerrain"
proof -
  have row: "\<lfloor>81 / TILE_SIZE\<rfloor> + 1 = 6"
    by (simp add: TILE_SIZE_def)
  have stored: "rowColliders demoTerrain 6 \<noteq> None"
    by (simp add: demo_rows)
  have maps: "[5 :: int \<mapsto> newCollider 80 5, 6 \<mapsto> newCollider 96 6](6 := None) =
                [5 \<mapsto> newCollider 80 5]"
    "[5 :: int \<mapsto> newVisual 80, 6 \<mapsto> newVisual 96](6 := None) = [5 \<mapsto> newVisual 80]"
    by (rule ext, simp)+
  show ?thesis
    using row stored clearCurrentRow_locality [OF row stored, of plainClasses]
    by (simp add: demo_rows demo_spikes maps plainClasses_def plainEntity_def TILE_SIZE_def)
qed

text \<open>
  Claim C6, as the specification states it, fails: clearing row 6 damages the spike at
  \<open>y = 98\<close>, which lies inside row 6 (whose top is at 96) and so not in the tile band
  of the row above. The spike at \<open>y = 70\<close> is untouched.
\<close>

theorem clear_damages_spike_in_row_counterexample:
  "\<lfloor>81 / TILE_SIZE\<rfloor> + 1 = 6 \<and>
   6 * TILE_SIZE < ent_y (plainEntity 8 98 1) \<and>
   spikesGroup demoTerrain =
     Some [plainEntity 8 70 1, plainEntity 8 90 1, plainEntity 8 98 1] \<and>
   spikesGroup (snd (clearCurrentRow plainClasses demoTerrain 81)) =
     Some [plainEntity 8 70 1,
           (plainEntity 8 90 1)\<lparr>ent_health := 0, ent_active := False\<rparr>,
           (plainEntity 8 98 1)\<lparr>ent_health := 0, ent_active := False\<rparr>]"
  by (simp add: clearCurrentRow_spikes demo_rows demo_spikes clearSpike_def plainClasses_def
      plainTakeDamage_def plainEntity_def tileRow_def TILE_SIZE_def)


section \<open>The rows an explosion clears\<close>










section \<open>The damage of an explosion\<close>



































section \<open>The rolls of one cell\<close>

lemma spawnCell_unfold:
  "spawnCell E sy ky bc ec sc cc sp tileX s =
     (if cellOccupied s sy tileX then s
      else rollCoin E (cellCentreX tileX) sy cc
             (fst (rollHazard E (cellCentreX tileX) sy ky bc ec sc sp s))
             (snd (rollHazard E (cellCentreX tileX) sy ky bc ec sc sp s)))"
  by (simp only: spawnCell_def cellOccupied_def cellCentreX_def Let_def case_prod_beta)

lemma shift_numerals:
  "(\<lambda>n. f (Suc n)) = (\<lambda>n. f (n + 1))"
  "(\<lambda>n. f (Suc (Suc n))) = (\<lambda>n. f (n + 2))"
  "(\<lambda>n. f (Suc (Suc (Suc n)))) = (\<lambda>n. f (n + 3))"
  "(\<lambda>n. f (Suc (Suc (Suc (Suc n))))) = (\<lambda>n. f (n + 4))"
  by (rule ext, simp add: eval_nat_numeral)+

lemma spawnCell_occupied:
  "cellOccupied s sy tileX \<Longrightarrow> spawnCell E sy ky bc ec sc cc sp tileX s = s"
  by (simp add: spawnCell_unfold)

lemma spawnCell_boulder:
  assumes "\<not> cellOccupied s sy tileX" and "randoms s 0 < bc"
  shows "spawnCell E sy ky bc ec sc cc sp tileX s =
         s\<lparr>randoms := (\<lambda>n. randoms s (n + 1)),
           bouldersGroup :=
             bouldersGroup s @ [Boulder_new E (cellCentreX tileX) (fsub sy (fdiv TILE_SIZE 2))]\<rparr>"
  using assms
  by (simp add: spawnCell_unfold Let_def rollHazard_def rollCoin_def Math_random_def)

lemma spawnCell_enemy:
  assumes "\<not> cellOccupied s sy tileX" and "\<not> randoms s 0 < bc" and "randoms s 1 < ec"
  shows "spawnCell E sy ky bc ec sc cc sp tileX s =
         s\<lparr>randoms := (\<lambda>n. randoms s (n + 2)),
           enemiesGroup :=
             enemiesGroup s @
               [Enemy_setSpeed E sp (Enemy_new E (cellCentreX tileX) (fsub sy (fdiv TILE_SIZE 2)))]\<rparr>"
  using assms
  by (simp add: spawnCell_unfold Let_def rollHazard_def rollCoin_def Math_random_def)

lemma spawnCell_spike:
  assumes "\<not> cellOccupied s sy tileX" and "\<not> randoms s 0 < bc" and "\<not> randoms s 1 < ec"
    and "randoms s 2 < sc" and "spikesGroup s = Some g"
  shows "spawnCell E sy ky bc ec sc cc sp tileX s =
         s\<lparr>randoms := (\<lambda>n. randoms s (n + 3)),
           spikesGroup :=
             Some (g @ [Spike_new E (fsub (cellCentreX tileX) (fdiv TILE_SIZE 2)) (fadd ky 10)])\<rparr>"
  using assms
  by (simp add: spawnCell_unfold Let_def rollHazard_def rollCoin_def Math_random_def
      eval_nat_numeral shift_numerals [symmetric])

lemma spawnCell_coin:
  assumes "\<not> cellOccupied s sy tileX" and "\<not> randoms s 0 < bc" and "\<not> randoms s 1 < ec"
    and "\<not> randoms s 2 < sc \<or> spikesGroup s = None"
  shows "spawnCell E sy ky bc ec sc cc sp tileX s =
         (if randoms s 3 < cc
          then s\<lparr>randoms := (\<lambda>n. randoms s (n + 4)),
                 coinsGroup :=
                   Coin_spawn E (coinsGroup s) (cellCentreX tileX) (fsub sy (fdiv TILE_SIZE 2))\<rparr>
          else s\<lparr>randoms := (\<lambda>n. randoms s (n + 4))\<rparr>)"
  using assms
  by (auto simp add: spawnCell_unfold Let_def rollHazard_def rollCoin_def Math_random_def
      eval_nat_numeral shift_numerals [symmetric])

lemma generateRow_columns:
  assumes "generates s worldY force" and "initialPlatformRows < tileRow worldY"
  shows "generateRow E s worldY force =
         fold (spawnCell E (rowSurfaceY worldY) worldY (rowBoulderChance worldY)
                 (rowEnemyChance worldY) (rowSpikeChance worldY) (rowCoinChance worldY)
                 (rowEnemySpeed worldY))
           [0..<mapWidthTiles] (rowStored s worldY)"
  using assms
  by (simp add: generates_def generateRow_def tileRow_def Let_def domIff rowSurfaceY_def
      rowDepthFactor_def rowBoulderChance_def rowEnemyChance_def rowSpikeChance_def
      rowCoinChance_def rowEnemySpeed_def rowStored_def)

lemma spawnCell_cases:
  "bouldersGroup (spawnCell E sy ky bc ec sc cc sp tileX s) =
     (if \<not> cellOccupied s sy tileX \<and> randoms s 0 < bc
      then bouldersGroup s @ [Boulder_new E (cellCentreX tileX) (fsub sy (fdiv TILE_SIZE 2))]
      else bouldersGroup s) \<and>
   enemiesGroup (spawnCell E sy ky bc ec sc cc sp tileX s) =
     (if \<not> cellOccupied s sy tileX \<and> \<not> randoms s 0 < bc \<and> randoms s 1 < ec
      then enemiesGroup s @
             [Enemy_setSpeed E sp
                (Enemy_new E (cellCentreX tileX) (fsub sy (fdiv TILE_SIZE 2)))]
      else enemiesGroup s) \<and>
   spikesGroup (spawnCell E sy ky bc ec sc cc sp tileX s) =
     (if \<not> cellOccupied s sy tileX \<and> \<not> randoms s 0 < bc \<and> \<not> randoms s 1 < ec \<and>
         randoms s 2 < sc
      then map_option
             (\<lambda>g. g @ [Spike_new E (fsub (cellCentreX tileX) (fdiv TILE_SIZE 2))
                          (fadd ky 10)])
             (spikesGroup s)
      else spikesGroup s) \<and>
   coinsGroup (spawnCell E sy ky bc ec sc cc sp tileX s) =
     (if \<not> cellOccupied s sy tileX \<and> \<not> randoms s 0 < bc \<and> \<not> randoms s 1 < ec \<and>
         (\<not> randoms s 2 < sc \<or> spikesGroup s = None) \<and> randoms s 3 < cc
      then Coin_spawn E (coinsGroup s) (cellCentreX tileX) (fsub sy (fdiv TILE_SIZE 2))
      else coinsGroup s) \<and>
   randoms (spawnCell E sy ky bc ec sc cc sp tileX s) =
     (\<lambda>n. randoms s (n + cellDraws s (cellOccupied s sy tileX) bc ec sc)) \<and>
   length (bouldersGroup (spawnCell E sy ky bc ec sc cc sp tileX s)) +
     length (enemiesGroup (spawnCell E sy ky bc ec sc cc sp tileX s)) +
     groupSize (spikesGroup (spawnCell E sy ky bc ec sc cc sp tileX s))
     \<le> length (bouldersGroup s) + length (enemiesGroup s) + groupSize (spikesGroup s) + 1 \<and>
   (coinsGroup (spawnCell E sy ky bc ec sc cc sp tileX s) = coinsGroup s \<or>
    bouldersGroup (spawnCell E sy ky bc ec sc cc sp tileX s) = bouldersGroup s \<and>
    enemiesGroup (spawnCell E sy ky bc ec sc cc sp tileX s) = enemiesGroup s \<and>
    spikesGroup (spawnCell E sy ky bc ec sc cc sp tileX s) = spikesGroup s) \<and>
   (cellOccupied s sy tileX \<longrightarrow> spawnCell E sy ky bc ec sc cc sp tileX s = s)"
proof -
  consider
    (occupied) "cellOccupied s sy tileX"
    | (boulder) "\<not> cellOccupied s sy tileX" "randoms s 0 < bc"
    | (enemy) "\<not> cellOccupied s sy tileX" "\<not> randoms s 0 < bc" "randoms s 1 < ec"
    | (spike) g where "\<not> cellOccupied s sy tileX" "\<not> randoms s 0 < bc"
        "\<not> randoms s 1 < ec" "randoms s 2 < sc" "spikesGroup s = Some g"
    | (coin) "\<not> cellOccupied s sy tileX" "\<not> randoms s 0 < bc" "\<not> randoms s 1 < ec"
        "\<not> randoms s 2 < sc \<or> spikesGroup s = None"
    by (cases "spikesGroup s") auto
  then show ?thesis
  proof cases
    case occupied
    then show ?thesis
      by (simp add: spawnCell_occupied cellDraws_def)
  next
    case boulder
    then show ?thesis
      by (simp add: spawnCell_boulder cellDraws_def)
  next
    case enemy
    then show ?thesis
      by (simp add: spawnCell_enemy cellDraws_def)
  next
    case spike
    then show ?thesis
      by (simp add: spawnCell_spike cellDraws_def groupSize_def)
  next
    case coin
    have "spawnCell E sy ky bc ec sc cc sp tileX s =
         (if randoms s 3 < cc
          then s\<lparr>randoms := (\<lambda>n. randoms s (n + 4)),
                 coinsGroup :=
                   Coin_spawn E (coinsGroup s) (cellCentreX tileX) (fsub sy (fdiv TILE_SIZE 2))\<rparr>
          else s\<lparr>randoms := (\<lambda>n. randoms s (n + 4))\<rparr>)"
      using coin by (rule spawnCell_coin)
    then show ?thesis
      using coin by (auto simp add: cellDraws_def)
  qed
qed

lemma tile_halves: "fdiv TILE_SIZE 2 = 8"
  by (simp add: fdiv_def TILE_SIZE_def)

lemma checkRadius_value: "fmul TILE_SIZE (double (8 / 10)) = 7205759403792794 / 2 ^ 49"
  unfolding fmul_def TILE_SIZE_def double_consts
  by (rule double_eq) simp_all

lemma cellCentreX_exact:
  assumes "k < 2 ^ 40"
  shows "cellCentreX k = 16 * real k + 8"
proof -
  have "\<bar>16 * int k\<bar> < 2 ^ 53" and "\<bar>16 * int k + 8\<bar> < 2 ^ 53"
    using assms by simp_all
  then have "double (real_of_int (16 * int k)) = real_of_int (16 * int k)"
    and "double (real_of_int (16 * int k + 8)) = real_of_int (16 * int k + 8)"
    by (simp_all only: double_of_int)
  then have "double (16 * real k) = 16 * real k"
    and "double (16 * real k + 8) = 16 * real k + 8"
    by simp_all
  then show ?thesis
    by (simp add: cellCentreX_def fmul_def fadd_def fdiv_def TILE_SIZE_def mult.commute)
qed

lemma far_column:
  assumes "1 \<le> k" and "k < 2 ^ 40"
  shows "\<not> bodyHit (cellCentreX k) sy (fmul TILE_SIZE (double (8 / 10))) (plainEntity 8 py h)"
proof -
  have "\<bar>- (16 * int k)\<bar> < 2 ^ 53"
    using assms by simp
  then have "double (real_of_int (- (16 * int k))) = real_of_int (- (16 * int k))"
    by (simp only: double_of_int)
  then have "double (- (16 * real k)) = - (16 * real k)"
    by simp
  then have "fsub (fadd 8 0) (cellCentreX k) = - (16 * real k)"
    using assms by (simp add: cellCentreX_exact fsub_def fadd_def)
  moreover have "(16 :: real) \<le> 16 * real k"
    using assms by simp
  ultimately show ?thesis
    unfolding checkRadius_value by (simp add: bodyHit_def plainEntity_def)
qed

lemma quiet_fold:
  assumes r: "randoms t = (\<lambda>n. 1 / 2)"
    and c: "bc \<le> 1 / 2" "ec \<le> 1 / 2" "sc \<le> 1 / 2" "cc \<le> 1 / 2"
    and free: "\<And>k. k \<in> set ks \<Longrightarrow> \<not> cellOccupied t sy k"
  shows "fold (spawnCell E sy ky bc ec sc cc sp) ks t = t"
  using free
proof (induction ks)
  case Nil
  show ?case by simp
next
  case (Cons a ks)
  have "t\<lparr>randoms := (\<lambda>n. randoms t (n + 4))\<rparr> = t\<lparr>randoms := randoms t\<rparr>"
    by (simp add: r)
  then have same: "t\<lparr>randoms := (\<lambda>n. randoms t (n + 4))\<rparr> = t"
    by simp
  have "spawnCell E sy ky bc ec sc cc sp a t =
      (if randoms t 3 < cc
       then t\<lparr>randoms := (\<lambda>n. randoms t (n + 4)),
              coinsGroup := Coin_spawn E (coinsGroup t) (cellCentreX a) (fsub sy (fdiv TILE_SIZE 2))\<rparr>
       else t\<lparr>randoms := (\<lambda>n. randoms t (n + 4))\<rparr>)"
    using Cons.prems c by (intro spawnCell_coin) (simp_all add: r)
  then have "spawnCell E sy ky bc ec sc cc sp a t = t"
    using c same by (simp add: r)
  then show ?case
    using Cons by simp
qed

lemma row_96:
  "rowSurfaceY 96 = 7712414361871975 / 2 ^ 46"
  "rowBoulderChance 96 = 8646911284551352 / 2 ^ 58"
  "rowEnemyChance 96 = 4611686018427388 / 2 ^ 59"
  "rowSpikeChance 96 = 8646911284551352 / 2 ^ 58"
  "rowCoinChance 96 = 5764607523034235 / 2 ^ 60"
proof -
  have off: "fmul TILE_SIZE (double (9 / 10)) = 8106479329266893 / 2 ^ 49"
    unfolding fmul_def TILE_SIZE_def double_consts
    by (rule double_eq) simp_all
  have h: "fmul TILE_SIZE (double (1 / 10)) = 7205759403792794 / 2 ^ 52"
    unfolding fmul_def TILE_SIZE_def double_consts
    by (rule double_eq) simp_all
  have h2: "fdiv (7205759403792794 / 2 ^ 52) 2 = 7205759403792794 / 2 ^ 53"
    unfolding fdiv_def
    by (rule double_eq) simp_all
  have a: "fadd 96 (8106479329266893 / 2 ^ 49) = 7768709357214106 / 2 ^ 46"
    unfolding fadd_def
    by (rule double_near) simp_all
  have b: "fsub (7768709357214106 / 2 ^ 46) (7205759403792794 / 2 ^ 53) =
      7712414361871975 / 2 ^ 46"
    unfolding fsub_def
    by (rule double_near) simp_all
  show "rowSurfaceY 96 = 7712414361871975 / 2 ^ 46"
    unfolding rowSurfaceY_def off h h2 a b ..
  have d: "rowDepthFactor 96 = 0"
    by (simp add: rowDepthFactor_def initialPlatformRows_def fmul_def)
  have z: "fadd x 0 = double x" for x
    by (simp add: fadd_def)
  show "rowBoulderChance 96 = 8646911284551352 / 2 ^ 58"
    unfolding rowBoulderChance_def d boulderSpawnChanceBase_def z double_consts
    by (rule double_eq) simp_all
  show "rowEnemyChance 96 = 4611686018427388 / 2 ^ 59"
    unfolding rowEnemyChance_def d enemySpawnChanceBase_def z double_consts
    by (rule double_eq) simp_all
  show "rowSpikeChance 96 = 8646911284551352 / 2 ^ 58"
    unfolding rowSpikeChance_def d spikeSpawnChanceBase_def z double_consts
    by (rule double_eq) simp_all
  show "rowCoinChance 96 = 5764607523034235 / 2 ^ 60"
    unfolding rowCoinChance_def d coinSpawnChanceBase_def z double_consts
    by (rule double_eq) simp_all
qed

lemma spawn_height_96: "fsub (rowSurfaceY 96) (fdiv TILE_SIZE 2) = 7149464408450663 / 2 ^ 46"
  unfolding row_96 tile_halves fsub_def
  by (rule double_eq) simp_all

text \<open>
  Claim C9. A row that \<open>generateRow\<close> materialises below the platform is populated by
  running the cell step on the columns \<open>0\<close> to \<open>mapWidthTiles - 1\<close> in turn, from the
  state in which the row is stored and with the surface height, chances and speed of the
  row. In every cell the rolls are made in the order boulder, enemy, spike, each on the
  next random number, and a roll is made only when the cell was free and all earlier
  rolls failed. A boulder is added exactly when the cell was free and the first number
  is below the boulder chance; an enemy exactly when, in addition, the boulder roll
  failed and the second number is below the enemy chance; a spike exactly when both
  failed, the third number is below the spike chance and the spike group exists. So at
  most one of the three is added. The coin roll, on the fourth number, is made only when
  the cell was free and none of the three was spawned, so the cell never gets both a
  coin and one of the three, and an occupied cell draws no number at all and is left as
  it was.
\<close>

theorem cell_spawns_by_priority:
  "(generates s0 worldY force \<and> initialPlatformRows < tileRow worldY \<longrightarrow>
      generateRow E s0 worldY force =
        fold (spawnCell E (rowSurfaceY worldY) worldY (rowBoulderChance worldY)
                (rowEnemyChance worldY) (rowSpikeChance worldY) (rowCoinChance worldY)
                (rowEnemySpeed worldY))
          [0..<mapWidthTiles] (rowStored s0 worldY)) \<and>
   bouldersGroup (spawnCell E sy ky bc ec sc cc sp tileX s) =
     (if \<not> cellOccupied s sy tileX \<and> randoms s 0 < bc
      then bouldersGroup s @ [Boulder_new E (cellCentreX tileX) (fsub sy (fdiv TILE_SIZE 2))]
      else bouldersGroup s) \<and>
   enemiesGroup (spawnCell E sy ky bc ec sc cc sp tileX s) =
     (if \<not> cellOccupied s sy tileX \<and> \<not> randoms s 0 < bc \<and> randoms s 1 < ec
      then enemiesGroup s @
             [Enemy_setSpeed E sp
                (Enemy_new E (cellCentreX tileX) (fsub sy (fdiv TILE_SIZE 2)))]
      else enemiesGroup s) \<and>
   spikesGroup (spawnCell E sy ky bc ec sc cc sp tileX s) =
     (if \<not> cellOccupied s sy tileX \<and> \<not> randoms s 0 < bc \<and> \<not> randoms s 1 < ec \<and>
         randoms s 2 < sc
      then map_option
             (\<lambda>g. g @ [Spike_new E (fsub (cellCentreX tileX) (fdiv TILE_SIZE 2))
                          (fadd ky 10)])
             (spikesGroup s)
      else spikesGroup s) \<and>
   coinsGroup (spawnCell E sy ky bc ec sc cc sp tileX s) =
     (if \<not> cellOccupied s sy tileX \<and> \<not> randoms s 0 < bc \<and> \<not> randoms s 1 < ec \<and>
         (\<not> randoms s 2 < sc \<or> spikesGroup s = None) \<and> randoms s 3 < cc
      then Coin_spawn E (coinsGroup s) (cellCentreX tileX) (fsub sy (fdiv TILE_SIZE 2))
      else coinsGroup s) \<and>
   randoms (spawnCell E sy ky bc ec sc cc sp tileX s) =
     (\<lambda>n. randoms s (n + cellDraws s (cellOccupied s sy tileX) bc ec sc)) \<and>
   length (bouldersGroup (spawnCell E sy ky bc ec sc cc sp tileX s)) +
     length (enemiesGroup (spawnCell E sy ky bc ec sc cc sp tileX s)) +
     groupSize (spikesGroup (spawnCell E sy ky bc ec sc cc sp tileX s))
     \<le> length (bouldersGroup s) + length (enemiesGroup s) + groupSize (spikesGroup s) + 1 \<and>
   (coinsGroup (spawnCell E sy ky bc ec sc cc sp tileX s) = coinsGroup s \<or>
    bouldersGroup (spawnCell E sy ky bc ec sc cc sp tileX s) = bouldersGroup s \<and>
    enemiesGroup (spawnCell E sy ky bc ec sc cc sp tileX s) = enemiesGroup s \<and>
    spikesGroup (spawnCell E sy ky bc ec sc cc sp tileX s) = spikesGroup s) \<and>
   (cellOccupied s sy tileX \<longrightarrow> spawnCell E sy ky bc ec sc cc sp tileX s = s)"
proof -
  have columns: "generates s0 worldY force \<and> initialPlatformRows < tileRow worldY \<longrightarrow>
      generateRow E s0 worldY force =
        fold (spawnCell E (rowSurfaceY worldY) worldY (rowBoulderChance worldY)
                (rowEnemyChance worldY) (rowSpikeChance worldY) (rowCoinChance worldY)
                (rowEnemySpeed worldY))
          [0..<mapWidthTiles] (rowStored s0 worldY)"
    using generateRow_columns by blast
  show ?thesis
    using columns spawnCell_cases [of E sy ky bc ec sc cc sp tileX s] by blast
qed
lemma row_after_first_cell:
  assumes first: "spawnCell E sy ky bc ec sc cc sp 0 s = t"
    and r: "randoms t = (\<lambda>n. 1 / 2)"
    and c: "bc \<le> 1 / 2" "ec \<le> 1 / 2" "sc \<le> 1 / 2" "cc \<le> 1 / 2"
    and free: "\<And>k. 1 \<le> k \<Longrightarrow> k < mapWidthTiles \<Longrightarrow> \<not> cellOccupied t sy k"
  shows "fold (spawnCell E sy ky bc ec sc cc sp) [0..<mapWidthTiles] s = t"
proof -
  have "[0..<mapWidthTiles] = 0 # [1..<mapWidthTiles]"
    by (simp add: mapWidthTiles_def upt_conv_Cons)
  moreover have "fold (spawnCell E sy ky bc ec sc cc sp) [1..<mapWidthTiles] t = t"
    using r c free by (intro quiet_fold) simp_all
  ultimately show ?thesis
    using first by simp
qed

lemma fresh_row_fields:
  "bouldersGroup (rowStored (freshTerrain\<lparr>randoms := r\<rparr>) worldY) = []"
  "enemiesGroup (rowStored (freshTerrain\<lparr>randoms := r\<rparr>) worldY) = []"
  "spikesGroup (rowStored (freshTerrain\<lparr>randoms := r\<rparr>) worldY) = Some []"
  "coinsGroup (rowStored (freshTerrain\<lparr>randoms := r\<rparr>) worldY) = Some []"
  "randoms (rowStored (freshTerrain\<lparr>randoms := r\<rparr>) worldY) = r"
  "rowColliders (freshTerrain\<lparr>randoms := r\<rparr>) = Map.empty"
  by (simp_all add: rowStored_def freshTerrain_def constructor_def)

lemma fresh_row_free:
  "\<not> cellOccupied (rowStored (freshTerrain\<lparr>randoms := r\<rparr>) worldY) sy tileX"
  by (simp add: cellOccupied_def fresh_row_fields)

theorem cell_spawns_by_priority_witness:
  "generates boulderTerrain 96 False \<and> initialPlatformRows < tileRow 96 \<and>
   bouldersGroup (generateRow plainClasses boulderTerrain 96 False) =
     [plainEntity 8 (7149464408450663 / 2 ^ 46) 3] \<and>
   enemiesGroup (generateRow plainClasses boulderTerrain 96 False) = [] \<and>
   spikesGroup (generateRow plainClasses boulderTerrain 96 False) = Some [] \<and>
   coinsGroup (generateRow plainClasses boulderTerrain 96 False) = Some [] \<and>
   cellOccupied (generateRow plainClasses boulderTerrain 96 False) (rowSurfaceY 96) 0 \<and>
   spawnCell plainClasses (rowSurfaceY 96) 96 (rowBoulderChance 96) (rowEnemyChance 96)
     (rowSpikeChance 96) (rowCoinChance 96) (rowEnemySpeed 96) 0
     (generateRow plainClasses boulderTerrain 96 False) =
     generateRow plainClasses boulderTerrain 96 False"
proof -
  define s0 where "s0 = rowStored boulderTerrain 96"
  define b where "b = plainEntity 8 (7149464408450663 / 2 ^ 46) 3"
  define t where "t = s0\<lparr>randoms := (\<lambda>n. randoms s0 (n + 1)), bouldersGroup := [b]\<rparr>"
  have s0: "bouldersGroup s0 = []" "enemiesGroup s0 = []" "spikesGroup s0 = Some []"
    "coinsGroup s0 = Some []" "randoms s0 = (\<lambda>n. if n = 0 then 0 else 1 / 2)"
    and free0: "\<not> cellOccupied s0 (rowSurfaceY 96) 0"
    unfolding s0_def boulderTerrain_def by (simp_all add: fresh_row_fields fresh_row_free)
  have hyp: "generates boulderTerrain 96 False" "initialPlatformRows < tileRow 96"
    by (simp_all add: generates_def boulderTerrain_def fresh_row_fields
        initialPlatformRows_def mapHeightTiles_def)
  have chances: "0 < rowBoulderChance 96" "rowBoulderChance 96 \<le> 1 / 2"
    "rowEnemyChance 96 \<le> 1 / 2" "rowSpikeChance 96 \<le> 1 / 2" "rowCoinChance 96 \<le> 1 / 2"
    by (simp_all add: row_96)
  have "spawnCell plainClasses (rowSurfaceY 96) 96 (rowBoulderChance 96) (rowEnemyChance 96)
      (rowSpikeChance 96) (rowCoinChance 96) (rowEnemySpeed 96) 0 s0 =
      s0\<lparr>randoms := (\<lambda>n. randoms s0 (n + 1)),
         bouldersGroup := bouldersGroup s0 @
           [Boulder_new plainClasses (cellCentreX 0)
              (fsub (rowSurfaceY 96) (fdiv TILE_SIZE 2))]\<rparr>"
    using free0 chances by (intro spawnCell_boulder) (simp_all add: s0)
  moreover have "cellCentreX 0 = 8"
    using cellCentreX_exact [of 0] by simp
  ultimately have first: "spawnCell plainClasses (rowSurfaceY 96) 96 (rowBoulderChance 96)
      (rowEnemyChance 96) (rowSpikeChance 96) (rowCoinChance 96) (rowEnemySpeed 96) 0 s0 = t"
    unfolding spawn_height_96 by (simp add: t_def b_def s0 plainClasses_def)
  have t: "bouldersGroup t = [b]" "enemiesGroup t = []" "spikesGroup t = Some []"
    "coinsGroup t = Some []" "randoms t = (\<lambda>n. 1 / 2)"
    by (simp_all add: t_def s0)
  have far: "\<not> cellOccupied t (rowSurfaceY 96) k" if "1 \<le> k" and "k < mapWidthTiles" for k
  proof -
    have "k < 2 ^ 40"
      using that by (simp add: mapWidthTiles_def)
    then have "\<not> bodyHit (cellCentreX k) (rowSurfaceY 96) (fmul TILE_SIZE (double (8 / 10))) b"
      unfolding b_def using that by (intro far_column) simp_all
    then show ?thesis
      unfolding cellOccupied_def t by simp
  qed
  have row: "fold (spawnCell plainClasses (rowSurfaceY 96) 96 (rowBoulderChance 96)
      (rowEnemyChance 96) (rowSpikeChance 96) (rowCoinChance 96) (rowEnemySpeed 96))
      [0..<mapWidthTiles] s0 = t"
    using first t(5) chances(2-5) far by (rule row_after_first_cell)
  have near: "cellOccupied t (rowSurfaceY 96) 0"
  proof -
    have f1: "fsub (fadd 8 0) 8 = 0"
      by (simp add: fsub_def fadd_def)
    have f2: "fadd (7149464408450663 / 2 ^ 46) 0 = 7149464408450663 / 2 ^ 46"
      unfolding fadd_def by (rule double_eq) simp_all
    have f3: "fsub (7149464408450663 / 2 ^ 46) (7712414361871975 / 2 ^ 46) = - 8"
      by (simp add: fsub_def)
    have "bodyHit 8 (7712414361871975 / 2 ^ 46) (7205759403792794 / 2 ^ 49) b"
      unfolding b_def bodyHit_def plainEntity_def entity.select_convs option.case
        phys_body.select_convs f1 f2 f3
      by simp
    then show ?thesis
      unfolding cellOccupied_def t checkRadius_value row_96 \<open>cellCentreX 0 = 8\<close> by simp
  qed
  note inst = cell_spawns_by_priority [where ?s0.0 = boulderTerrain and worldY = 96
      and force = False and E = plainClasses and s = t and sy = "rowSurfaceY 96" and ky = 96
      and bc = "rowBoulderChance 96" and ec = "rowEnemyChance 96"
      and sc = "rowSpikeChance 96" and cc = "rowCoinChance 96" and sp = "rowEnemySpeed 96"
      and tileX = 0]
  have gen: "generateRow plainClasses boulderTerrain 96 False = t"
    using inst hyp row unfolding s0_def by simp
  have same: "spawnCell plainClasses (rowSurfaceY 96) 96 (rowBoulderChance 96)
      (rowEnemyChance 96) (rowSpikeChance 96) (rowCoinChance 96) (rowEnemySpeed 96) 0 t = t"
    using inst near by blast
  show ?thesis
    unfolding gen using hyp t near same unfolding b_def by simp
qed

section \<open>The scheduler on concrete frontiers\<close>

lemma fadd_tile_numeral:
  "numeral w + 16 < (9007199254740992 :: real) \<Longrightarrow> fadd (numeral w) 16 = numeral w + 16"
proof -
  assume a: "numeral w + 16 < (9007199254740992 :: real)"
  have "numeral w + (16 :: real) = real_of_int (numeral w + 16)"
    by simp
  moreover have "\<bar>numeral w + 16 :: int\<bar> < 2 ^ 53"
    using a by (simp flip: of_int_less_iff [where 'a = real])
  ultimately show ?thesis
    unfolding fadd_def using double_of_int [of "numeral w + 16"] by simp
qed

lemma threshold_numeral:
  "numeral w + 160 < (9007199254740992 :: real) \<Longrightarrow>
   fadd (numeral w) (fmul 16 10) = numeral w + 160"
proof -
  assume a: "numeral w + 160 < (9007199254740992 :: real)"
  have "numeral w + (160 :: real) = real_of_int (numeral w + 160)"
    by simp
  moreover have "\<bar>numeral w + 160 :: int\<bar> < 2 ^ 53"
    using a by (simp flip: of_int_less_iff [where 'a = real])
  ultimately show ?thesis
    unfolding fadd_def fmul_def using double_of_int [of "numeral w + 160"] by simp
qed

lemma nearly_doubles:
  "fadd nearly352 (fmul 16 10) = nearly512"
  "fadd nearly512 16 = 528"
proof -
  have "double (nearly352 + 160) = 9007199254740991 / 2 ^ 44"
    by (rule double_eq) (simp_all add: nearly352_def)
  moreover have "nearly512 = 9007199254740991 / 2 ^ 44"
    by (simp add: nearly512_def)
  ultimately show "fadd nearly352 (fmul 16 10) = nearly512"
    by (simp add: fadd_def fmul_def)
  have "double (nearly512 + 16) = 4644337115725824 / 2 ^ 43"
    by (rule double_tie) (simp_all add: nearly512_def)
  then show "fadd nearly512 16 = 528"
    by (simp add: fadd_def)
qed

lemma nearly512_order:
  "416 < nearly512" "432 < nearly512" "448 < nearly512" "464 < nearly512"
  "480 < nearly512" "496 < nearly512" "\<not> 512 < nearly512" "nearly512 < 560"
  "96 \<le> nearly512"
  by (simp_all add: nearly512_def)

lemma tileRow_nearly512: "tileRow nearly512 = 31"
  unfolding tileRow_def by (rule floor_unique) (simp_all add: nearly512_def TILE_SIZE_def)

lemma update_from_416_to_420:
  "generatedRowsMaxY s = 416 \<Longrightarrow>
   update E s 260 = Some ((generateRow E s 416 False)\<lparr>generatedRowsMaxY := 420\<rparr>)"
  by (simp add: update_def Let_def threshold_numeral fadd_tile_numeral update_loop.simps
      initialPlatformRows_def TILE_SIZE_def)

lemma update_from_420_to_430:
  "generatedRowsMaxY s = 420 \<Longrightarrow>
   update E s 270 = Some ((generateRow E s 420 False)\<lparr>generatedRowsMaxY := 430\<rparr>)"
  by (simp add: update_def Let_def threshold_numeral fadd_tile_numeral update_loop.simps
      initialPlatformRows_def TILE_SIZE_def)

lemma update_from_416_to_nearly512:
  "generatedRowsMaxY s = 416 \<Longrightarrow>
   update E s nearly352 =
     Some ((generateRows E [416, 432, 448, 464, 480, 496] s)\<lparr>generatedRowsMaxY := nearly512\<rparr>)"
  by (simp add: update_def Let_def nearly_doubles nearly512_order fadd_tile_numeral
      update_loop.simps generateRows_def initialPlatformRows_def TILE_SIZE_def)

lemma update_from_nearly512_to_560:
  "generatedRowsMaxY s = nearly512 \<Longrightarrow>
   update E s 400 =
     Some ((generateRows E [nearly512, 528, 544] s)\<lparr>generatedRowsMaxY := 560\<rparr>)"
  by (simp add: update_def Let_def nearly_doubles nearly512_order threshold_numeral
      fadd_tile_numeral update_loop.simps generateRows_def initialPlatformRows_def
      TILE_SIZE_def)

lemma generateInitialChunk_rows:
  "generateInitialChunk E s =
     Some ((generateRows E [96, 112, 128, 144, 160, 176, 192, 208, 224, 240, 256, 272, 288,
                            304, 320, 336, 352, 368, 384, 400]
              (generateRow E s 80 True))\<lparr>generatedRowsMaxY := 416\<rparr>)"
  by (simp add: generateInitialChunk_def fadd_tile_numeral chunk_loop.simps generateRows_def
      initialPlatformRows_def TILE_SIZE_def fadd_def fmul_def)

lemma tileRow_values:
  "tileRow 400 = 25" "tileRow 416 = 26" "tileRow 420 = 26" "tileRow 528 = 33"
  "tileRow 544 = 34"
  by (simp_all add: tileRow_def TILE_SIZE_def)

lemma regenerated_after_clear:
  assumes "generatedRowsMaxY s = 420"
  shows "map_option (\<lambda>u. rowColliders u 26) (update E (snd (clearCurrentRow E s 400)) 270) =
         Some (Some (newCollider 420 26))"
proof -
  define c where "c = snd (clearCurrentRow E s 400)"
  have frontier: "generatedRowsMaxY c = 420"
    using assms by (simp add: c_def clearCurrentRow_frame)
  have "rowColliders c 26 = None"
    by (simp add: c_def clearCurrentRow_rowColliders tileRow_values)
  then have "generates c 420 False"
    by (simp add: generates_def tileRow_values mapHeightTiles_def initialPlatformRows_def)
  then have "rowColliders (generateRow E c 420 False) 26 = Some (newCollider 420 26)"
    by (simp add: generateRow_store tileRow_values)
  then show ?thesis
    using update_from_420_to_430 [OF frontier, of E] by (simp add: c_def)
qed

lemma generateRow_other_rows:
  "tileRow worldY \<noteq> k \<Longrightarrow> rowColliders (generateRow E s worldY force) k = rowColliders s k"
  by (cases "generates s worldY force") (simp_all add: generateRow_store generateRow_skip)

text \<open>
  Claim C3, as evaluated on the code. The scheduler starts each call at the frontier the
  previous call left, which is the previous threshold and in general not the top of a
  row, and steps by a rounded addition. So the generator is not called exactly once for
  each row. With the frontier at 416, where \<open>generateInitialChunk\<close> leaves it,
  \<open>update(260)\<close> calls \<open>generateRow(416)\<close> and moves the frontier to 420, and
  \<open>update(270)\<close> calls \<open>generateRow(420)\<close>: both calls are for row 26, the second with a
  coordinate that is not the top of the row, and when row 26 was cleared in between (by
  \<open>clearCurrentRow(400)\<close>) the second call stores it again, built at 420. From the same
  frontier, \<open>update(351.99999999999994)\<close> calls the generator at 416, 432, ..., 496 and
  leaves the frontier at 511.99999999999994; \<open>update(400)\<close> then calls it at
  511.99999999999994 (row 31 again), at 528 (row 33) and at 544 (row 34), since
  511.99999999999994 + 16 rounds to 528: row 32 is never visited, and its entry in the
  collider map is what it was before the two calls.
\<close>

theorem scheduler_revisits_and_skips_rows:
  "generateInitialChunk E s =
     Some ((generateRows E [96, 112, 128, 144, 160, 176, 192, 208, 224, 240, 256, 272, 288,
                            304, 320, 336, 352, 368, 384, 400]
              (generateRow E s 80 True))\<lparr>generatedRowsMaxY := 416\<rparr>) \<and>
   update E (t\<lparr>generatedRowsMaxY := 416\<rparr>) 260 =
     Some ((generateRow E (t\<lparr>generatedRowsMaxY := 416\<rparr>) 416 False)
             \<lparr>generatedRowsMaxY := 420\<rparr>) \<and>
   update E (t\<lparr>generatedRowsMaxY := 420\<rparr>) 270 =
     Some ((generateRow E (t\<lparr>generatedRowsMaxY := 420\<rparr>) 420 False)
             \<lparr>generatedRowsMaxY := 430\<rparr>) \<and>
   tileRow 416 = 26 \<and> tileRow 420 = 26 \<and>
   map_option (\<lambda>u. rowColliders u 26)
     (update E (snd (clearCurrentRow E (t\<lparr>generatedRowsMaxY := 420\<rparr>) 400)) 270) =
     Some (Some (newCollider 420 26)) \<and>
   update E (t\<lparr>generatedRowsMaxY := 416\<rparr>) nearly352 =
     Some ((generateRows E [416, 432, 448, 464, 480, 496] (t\<lparr>generatedRowsMaxY := 416\<rparr>))
             \<lparr>generatedRowsMaxY := nearly512\<rparr>) \<and>
   update E (t\<lparr>generatedRowsMaxY := nearly512\<rparr>) 400 =
     Some ((generateRows E [nearly512, 528, 544] (t\<lparr>generatedRowsMaxY := nearly512\<rparr>))
             \<lparr>generatedRowsMaxY := 560\<rparr>) \<and>
   tileRow nearly512 = 31 \<and> tileRow 528 = 33 \<and> tileRow 544 = 34 \<and>
   map_option (\<lambda>u. rowColliders u 32) (update E (t\<lparr>generatedRowsMaxY := nearly512\<rparr>) 400) =
     Some (rowColliders t 32)"
proof -
  have a: "generatedRowsMaxY (t\<lparr>generatedRowsMaxY := 416\<rparr>) = 416"
    and b: "generatedRowsMaxY (t\<lparr>generatedRowsMaxY := 420\<rparr>) = 420"
    and c: "generatedRowsMaxY (t\<lparr>generatedRowsMaxY := nearly512\<rparr>) = nearly512"
    by simp_all
  have hole: "map_option (\<lambda>u. rowColliders u 32)
      (update E (t\<lparr>generatedRowsMaxY := nearly512\<rparr>) 400) = Some (rowColliders t 32)"
    unfolding update_from_nearly512_to_560 [OF c]
    by (simp add: generateRows_def generateRow_other_rows tileRow_nearly512 tileRow_values)
  show ?thesis
    using generateInitialChunk_rows [of E s] update_from_416_to_420 [OF a, of E]
      update_from_420_to_430 [OF b, of E] regenerated_after_clear [OF b, of E]
      update_from_416_to_nearly512 [OF a, of E] update_from_nearly512_to_560 [OF c, of E]
      tileRow_values tileRow_nearly512 hole
    by (intro conjI)
qed

end
